theory Spec2Isabelle
  imports Complex_Main "HOL-Library.Word" "HOL-Library.Signed_Division" "HOL-Library.Finite_Map"
begin

section \<open>pdfcpu: validation of the document info dictionary, the api layer and the command line\<close>

text \<open>
  A shallow embedding of the parts of pdfcpu that decide how the document info dictionary is
  validated (package validate), how the file and stream based api functions sequence reading,
  validating, optimizing and writing (package api), and how the command line handlers and
  \<open>cli.Process\<close> guard them.

  Conventions. A Go \<open>error\<close> result is an \<open>error option\<close> (\<open>None\<close> is \<open>nil\<close>); a function with
  several results returns a tuple in the order of the Go results. Logging and timing
  statistics have no influence on any result and are left out. A Go map is an association
  list (its iteration order is the order of the list, every order being possible) or a finite
  map. A pointer that may be \<open>nil\<close> is an \<open>option\<close>.
\<close>

subsection \<open>Errors, versions, modes\<close>

datatype error = Err string

type_synonym bytes = string

text \<open>\<open>pdf.Version\<close> is an integer enumeration \<open>V10 .. V17\<close>.\<close>

type_synonym Version = int

definition V10 :: Version where "V10 = 0"
definition V11 :: Version where "V11 = 1"
definition V12 :: Version where "V12 = 2"
definition V13 :: Version where "V13 = 3"
definition V14 :: Version where "V14 = 4"
definition V15 :: Version where "V15 = 5"
definition V16 :: Version where "V16 = 6"
definition V17 :: Version where "V17 = 7"

datatype ValidationMode = ValidationStrict | ValidationRelaxed | ValidationNone

subsection \<open>Objects and the cross reference table\<close>

text \<open>
  Modelled from the spec: the PDF object type \<open>pdf.Object\<close> (package pdfcpu), a tagged value
  with one case per kind (section 3 of the specification). A dictionary maps names to objects.
\<close>

datatype object =
    Null
  | Boolean bool
  | Integer int
  | Real real
  | Name string
  | StringLiteral string
  | HexLiteral string
  | Array "object list"
  | Dict "(string \<times> object) list"
  | StreamDict "(string \<times> object) list" bytes
  | IndirectRef nat nat

type_synonym PDFDict = "(string \<times> object) list"

text \<open>
  Modelled from the spec: a cross reference entry is free or in use; an entry in use is taken
  after its object has been materialised (generation number, object).
\<close>

datatype XRefEntry = Free nat nat | InUse nat object

text \<open>
  The fields of \<open>pdf.XRefTable\<close> that the code below reads or writes. \<open>Table\<close>, \<open>Root\<close>,
  \<open>HeaderVersion\<close> and \<open>RootVersion\<close> are modelled from the spec (section 3): the mapping from
  object numbers to entries, the catalog reference, the header version and the optional
  root-override version.
\<close>

record XRefTable =
  Table :: "nat \<Rightarrow> XRefEntry option"
  Root :: object
  Info :: "object option"
  HeaderVersion :: Version
  RootVersion :: "Version option"
  ValidationMode :: ValidationMode
  PageCount :: int
  Title :: string
  Author :: string
  Subject :: string
  Keywords :: string
  Creator :: string
  Producer :: string
  CreationDate :: string
  ModDate :: string

text \<open>
  Modelled from the spec: \<open>XRefTable.Version()\<close>, the effective version: the root-override
  version if there is one, the header version otherwise.
\<close>

definition Version :: "XRefTable \<Rightarrow> Version" where
  "Version x = (case RootVersion x of Some v \<Rightarrow> v | None \<Rightarrow> HeaderVersion x)"

text \<open>
  Modelled from the spec: \<open>pdf.PDFVersion\<close>, which reads a version string.
\<close>

definition PDFVersion :: "string \<Rightarrow> Version \<times> error option" where
  "PDFVersion s =
     (if s = ''1.0'' then (V10, None) else if s = ''1.1'' then (V11, None)
      else if s = ''1.2'' then (V12, None) else if s = ''1.3'' then (V13, None)
      else if s = ''1.4'' then (V14, None) else if s = ''1.5'' then (V15, None)
      else if s = ''1.6'' then (V16, None) else if s = ''1.7'' then (V17, None)
      else (-1, Some (Err ''unknown PDF version'')))"

text \<open>
  Modelled from the spec: \<open>pdf.MemberOf\<close>, membership of a string in a list of strings.
\<close>

definition MemberOf :: "string \<Rightarrow> string list \<Rightarrow> bool" where
  "MemberOf s xs = (s \<in> set xs)"

text \<open>
  Modelled from the spec: \<open>XRefTable.Dereference\<close> (section 4.3 and section 7). A direct object
  is its own value. An indirect reference resolves to the object of an entry in use with the
  same generation; a dangling reference is fatal, except in relaxed mode, which substitutes
  \<open>Null\<close>.
\<close>

definition Dereference :: "XRefTable \<Rightarrow> object \<Rightarrow> object \<times> error option" where
  "Dereference x ob =
     (case ob of
        IndirectRef n g \<Rightarrow>
          (case Table x n of
             Some (InUse g' v) \<Rightarrow>
               if g' = g then (v, None)
               else if ValidationMode x = ValidationRelaxed then (Null, None)
               else (Null, Some (Err ''DanglingReference''))
           | _ \<Rightarrow>
               if ValidationMode x = ValidationRelaxed then (Null, None)
               else (Null, Some (Err ''DanglingReference'')))
      | _ \<Rightarrow> (ob, None))"

text \<open>
  Modelled from the spec: \<open>XRefTable.ValidateVersion\<close>, the version gate of a rule
  (\<open>since_version\<close>, section 4.6).
\<close>

definition ValidateVersion :: "XRefTable \<Rightarrow> string \<Rightarrow> Version \<Rightarrow> error option" where
  "ValidateVersion x element sinceVersion =
     (if Version x < sinceVersion then Some (Err (element @ '': unsupported in version''))
      else None)"

text \<open>
  Modelled from the spec: the typed dereference helpers of \<open>pdf.XRefTable\<close>. Each resolves the
  object, checks its kind, applies the version gate and, for names and strings, the optional
  validation function. A null object yields the zero value and no error: this is the nil
  result that \<open>validateDocumentInfoDict\<close> tests for after \<open>DereferenceDict\<close>.
\<close>

definition DereferenceName ::
  "XRefTable \<Rightarrow> object \<Rightarrow> Version \<Rightarrow> (string \<Rightarrow> bool) option \<Rightarrow> string \<times> error option" where
  "DereferenceName x ob sinceVersion validate =
     (case Dereference x ob of
        (_, Some e) \<Rightarrow> ([], Some e)
      | (Null, None) \<Rightarrow> ([], None)
      | (Name n, None) \<Rightarrow>
          (case ValidateVersion x ''DereferenceName'' sinceVersion of
             Some e \<Rightarrow> (n, Some e)
           | None \<Rightarrow>
               (case validate of
                  Some f \<Rightarrow> if f n then (n, None) else (n, Some (Err (''dereferenceName: invalid '' @ n)))
                | None \<Rightarrow> (n, None)))
      | (_, None) \<Rightarrow> ([], Some (Err ''dereferenceName: wrong type'')))"

definition DereferenceBoolean ::
  "XRefTable \<Rightarrow> object \<Rightarrow> Version \<Rightarrow> bool option \<times> error option" where
  "DereferenceBoolean x ob sinceVersion =
     (case Dereference x ob of
        (_, Some e) \<Rightarrow> (None, Some e)
      | (Null, None) \<Rightarrow> (None, None)
      | (Boolean b, None) \<Rightarrow>
          (case ValidateVersion x ''DereferenceBoolean'' sinceVersion of
             Some e \<Rightarrow> (None, Some e)
           | None \<Rightarrow> (Some b, None))
      | (_, None) \<Rightarrow> (None, Some (Err ''dereferenceBoolean: wrong type'')))"

definition DereferenceStringOrHexLiteral ::
  "XRefTable \<Rightarrow> object \<Rightarrow> Version \<Rightarrow> (string \<Rightarrow> bool) option \<Rightarrow> string \<times> error option" where
  "DereferenceStringOrHexLiteral x ob sinceVersion validate =
     (case Dereference x ob of
        (_, Some e) \<Rightarrow> ([], Some e)
      | (Null, None) \<Rightarrow> ([], None)
      | (v, None) \<Rightarrow>
          (case (case v of StringLiteral s \<Rightarrow> Some s | HexLiteral s \<Rightarrow> Some s | _ \<Rightarrow> None) of
             None \<Rightarrow> ([], Some (Err ''dereferenceStringOrHexLiteral: wrong type''))
           | Some s \<Rightarrow>
               (case ValidateVersion x ''DereferenceStringOrHexLiteral'' sinceVersion of
                  Some e \<Rightarrow> ([], Some e)
                | None \<Rightarrow>
                    (case validate of
                       Some f \<Rightarrow> if f s then (s, None) else ([], Some (Err ''invalid string''))
                     | None \<Rightarrow> (s, None)))))"

definition DereferenceDict :: "XRefTable \<Rightarrow> object \<Rightarrow> PDFDict option \<times> error option" where
  "DereferenceDict x ob =
     (case Dereference x ob of
        (_, Some e) \<Rightarrow> (None, Some e)
      | (Null, None) \<Rightarrow> (None, None)
      | (Dict d, None) \<Rightarrow> (Some d, None)
      | (_, None) \<Rightarrow> (None, Some (Err ''dereferenceDict: wrong type'')))"

text \<open>
  Modelled from the spec: \<open>validateString\<close> and \<open>validateDateObject\<close> of package validate. A
  string is a string or hex literal; a date is a string in the date syntax of section 4.6,
  which is the parameter \<open>isDate\<close>.
\<close>

definition validateString ::
  "XRefTable \<Rightarrow> object \<Rightarrow> (string \<Rightarrow> bool) option \<Rightarrow> string \<times> error option" where
  "validateString x ob validate =
     (case Dereference x ob of
        (_, Some e) \<Rightarrow> ([], Some e)
      | (StringLiteral s, None) \<Rightarrow>
          (case validate of
             Some f \<Rightarrow> if f s then (s, None) else ([], Some (Err ''validateString: invalid''))
           | None \<Rightarrow> (s, None))
      | (HexLiteral s, None) \<Rightarrow>
          (case validate of
             Some f \<Rightarrow> if f s then (s, None) else ([], Some (Err ''validateString: invalid''))
           | None \<Rightarrow> (s, None))
      | (_, None) \<Rightarrow> ([], Some (Err ''validateString: invalid type'')))"

definition validateDateObject ::
  "(string \<Rightarrow> bool) \<Rightarrow> XRefTable \<Rightarrow> object \<Rightarrow> Version \<Rightarrow> string \<times> error option" where
  "validateDateObject isDate x ob sinceVersion =
     (case DereferenceStringOrHexLiteral x ob sinceVersion (Some isDate) of
        (s, e) \<Rightarrow> (s, e))"

text \<open>
  Modelled from the spec: \<open>XRefTable.CatalogHasPieceInfo\<close>: the catalog, which \<open>Root\<close> refers
  to, has a \<open>PieceInfo\<close> entry.
\<close>

definition CatalogHasPieceInfo :: "XRefTable \<Rightarrow> bool \<times> error option" where
  "CatalogHasPieceInfo x =
     (case DereferenceDict x (Root x) of
        (_, Some e) \<Rightarrow> (False, Some e)
      | (None, None) \<Rightarrow> (False, Some (Err ''catalog: missing root dict''))
      | (Some d, None) \<Rightarrow>
          (case map_of d ''PieceInfo'' of
             None \<Rightarrow> (False, None)
           | Some v \<Rightarrow> (True, None)))"

subsection \<open>Package validate: the document info dictionary\<close>

definition handleDefault :: "XRefTable \<Rightarrow> object \<Rightarrow> error option" where
  "handleDefault xRefTable ob =
     (if ValidationMode xRefTable = ValidationStrict
      then snd (DereferenceStringOrHexLiteral xRefTable ob V10 None)
      else snd (Dereference xRefTable ob))"

definition validateInfoDictDate ::
  "(string \<Rightarrow> bool) \<Rightarrow> XRefTable \<Rightarrow> object \<Rightarrow> string \<times> error option" where
  "validateInfoDictDate isDate xRefTable ob =
     (if ValidationMode xRefTable = ValidationRelaxed
      then validateString xRefTable ob None
      else validateDateObject isDate xRefTable ob V10)"

definition validateInfoDictTrapped :: "object \<Rightarrow> XRefTable \<Rightarrow> error option" where
  "validateInfoDictTrapped ob xRefTable =
     (let sinceVersion = V13;
          validate = (if ValidationMode xRefTable = ValidationRelaxed
                      then (\<lambda>s. MemberOf s [''True'', ''False'', ''Unknown'', ''true'', ''false'', ''unknown''])
                      else (\<lambda>s. MemberOf s [''True'', ''False'', ''Unknown'']));
          err = snd (DereferenceName xRefTable ob sinceVersion (Some validate))
      in if err = None then None
         else if ValidationMode xRefTable = ValidationRelaxed
         then snd (DereferenceBoolean xRefTable ob sinceVersion)
         else err)"

text \<open>
  One iteration of the loop over the entries of the info dictionary: the switch on the key.
  The result is the table with the field assigned, the new value of \<open>hasModDate\<close> and the
  error of the entry.
\<close>

definition validateDocumentInfoDict_entry ::
  "(string \<Rightarrow> bool) \<Rightarrow> XRefTable \<Rightarrow> bool \<Rightarrow> string \<Rightarrow> object \<Rightarrow> XRefTable \<times> bool \<times> error option" where
  "validateDocumentInfoDict_entry isDate xRefTable hasModDate k v =
     (if k = ''Title'' then
        (case DereferenceStringOrHexLiteral xRefTable v V11 None of
           (s, err) \<Rightarrow> (xRefTable\<lparr>Title := s\<rparr>, hasModDate, err))
      else if k = ''Author'' then
        (case DereferenceStringOrHexLiteral xRefTable v V10 None of
           (s, err) \<Rightarrow> (xRefTable\<lparr>Author := s\<rparr>, hasModDate, err))
      else if k = ''Subject'' then
        (case DereferenceStringOrHexLiteral xRefTable v V11 None of
           (s, err) \<Rightarrow> (xRefTable\<lparr>Subject := s\<rparr>, hasModDate, err))
      else if k = ''Keywords'' then
        (case DereferenceStringOrHexLiteral xRefTable v V11 None of
           (s, err) \<Rightarrow> (xRefTable\<lparr>Keywords := s\<rparr>, hasModDate, err))
      else if k = ''Creator'' then
        (case DereferenceStringOrHexLiteral xRefTable v V10 None of
           (s, err) \<Rightarrow> (xRefTable\<lparr>Creator := s\<rparr>, hasModDate, err))
      else if k = ''Producer'' then
        (case DereferenceStringOrHexLiteral xRefTable v V10 None of
           (s, err) \<Rightarrow> (xRefTable\<lparr>Producer := s\<rparr>, hasModDate, err))
      else if k = ''CreationDate'' then
        (case validateInfoDictDate isDate xRefTable v of
           (s, err) \<Rightarrow> (xRefTable\<lparr>CreationDate := s\<rparr>, hasModDate, err))
      else if k = ''ModDate'' then
        (case validateInfoDictDate isDate xRefTable v of
           (s, err) \<Rightarrow> (xRefTable\<lparr>ModDate := s\<rparr>, True, err))
      else if k = ''Trapped'' then
        (xRefTable, hasModDate, validateInfoDictTrapped v xRefTable)
      else
        (xRefTable, hasModDate, handleDefault xRefTable v))"

fun validateDocumentInfoDict_loop ::
  "(string \<Rightarrow> bool) \<Rightarrow> XRefTable \<Rightarrow> bool \<Rightarrow> PDFDict \<Rightarrow> XRefTable \<times> bool \<times> error option" where
  "validateDocumentInfoDict_loop isDate xRefTable hasModDate [] = (xRefTable, hasModDate, None)"
| "validateDocumentInfoDict_loop isDate xRefTable hasModDate ((k, v) # d) =
     (case validateDocumentInfoDict_entry isDate xRefTable hasModDate k v of
        (xRefTable', hasModDate', err) \<Rightarrow>
          if err \<noteq> None then (xRefTable', False, err)
          else validateDocumentInfoDict_loop isDate xRefTable' hasModDate' d)"

definition validateDocumentInfoDict ::
  "(string \<Rightarrow> bool) \<Rightarrow> XRefTable \<Rightarrow> object \<Rightarrow> XRefTable \<times> bool \<times> error option" where
  "validateDocumentInfoDict isDate xRefTable ob =
     (case DereferenceDict xRefTable ob of
        (_, Some e) \<Rightarrow> (xRefTable, False, Some e)
      | (None, None) \<Rightarrow> (xRefTable, False, None)
      | (Some d, None) \<Rightarrow> validateDocumentInfoDict_loop isDate xRefTable False d)"

definition validateDocumentInfoObject ::
  "(string \<Rightarrow> bool) \<Rightarrow> XRefTable \<Rightarrow> XRefTable \<times> error option" where
  \<open>validateDocumentInfoObject isDate xRefTable =
     (case Info xRefTable of
        None \<Rightarrow> (xRefTable, None)
      | Some info \<Rightarrow>
          (case validateDocumentInfoDict isDate xRefTable info of
             (xRefTable', hasModDate, Some e) \<Rightarrow> (xRefTable', Some e)
           | (xRefTable', hasModDate, None) \<Rightarrow>
               (case CatalogHasPieceInfo xRefTable' of
                  (hasPieceInfo, Some e) \<Rightarrow> (xRefTable', Some e)
                | (hasPieceInfo, None) \<Rightarrow>
                    if hasPieceInfo \<and> \<not> hasModDate
                    then (xRefTable',
                          Some (Err ''validateDocumentInfoObject: missing required entry "ModDate"''))
                    else (xRefTable', None))))\<close>

subsection \<open>Commands, configurations and contexts\<close>

text \<open>
  \<open>pdf.CommandMode\<close> is an integer enumeration; \<open>OtherMode\<close> stands for an integer that is none of
  the modes the code names.
\<close>

datatype CommandMode =
    VALIDATE | OPTIMIZE | SPLIT | MERGE | EXTRACTIMAGES | EXTRACTFONTS | EXTRACTPAGES
  | EXTRACTCONTENT | EXTRACTMETADATA | TRIM | ADDWATERMARKS | LISTATTACHMENTS | ADDATTACHMENTS
  | REMOVEATTACHMENTS | EXTRACTATTACHMENTS | ENCRYPT | DECRYPT | CHANGEUPW | CHANGEOPW
  | LISTPERMISSIONS | SETPERMISSIONS | IMPORTIMAGES | INSERTPAGES | REMOVEPAGES | ROTATE | NUP
  | INFO | OtherMode int

record Configuration =
  Cmd :: CommandMode
  ValidationMode :: ValidationMode
  UserPW :: string
  OwnerPW :: string

text \<open>\<open>pdf.IntSet\<close> is \<open>map[int]bool\<close>; \<open>len\<close> counts its keys.\<close>

type_synonym IntSet = "(int, bool) fmap"


text \<open>
  The write context: the selected pages, the output directory and file name, and the writer,
  which is identified by the path of the file it writes to.
\<close>

record WriteContext =
  SelectedPages :: IntSet
  DirName :: string
  FileName :: string
  Writer :: "string option"

text \<open>
  \<open>pdf.Context\<close> holds the cross reference table, the configuration and the write context;
  \<open>ctx.PageCount\<close> is \<open>PageCount (XRefTable ctx)\<close>.
\<close>

record Context =
  XRefTable :: XRefTable
  Configuration :: Configuration
  Write :: WriteContext

subsection \<open>The world: files and the trace of operations\<close>

text \<open>
  Every call of the operating system and of the core (read, validate, optimize, merge, write)
  is recorded as an event, in the order of the calls. A write event carries the context that
  was written, a merge event the source and the destination context.
\<close>

datatype event =
    EvOpen string | EvCreate string | EvClose string | EvRemove string | EvRename string string
  | EvRead bytes | EvValidate | EvOptimize | EvMerge Context Context | EvWrite Context

text \<open>The file system is flat: a file is identified by its path, and there are no links.\<close>

record world =
  files :: "string \<Rightarrow> bytes option"
  trace :: "event list"

text \<open>
  The code that is not part of the sources at hand is a parameter: the core operations of
  package pdfcpu (\<open>pdf.Read\<close>, \<open>pdf.OptimizeXRefTable\<close>, \<open>pdf.Write\<close>, \<open>pdf.MergeXRefTables\<close>,
  \<open>pdf.NewDefaultConfiguration\<close>), \<open>validate.XRefTable\<close>, \<open>pagesForPageSelection\<close> and
  \<open>ParsePageSelection\<close> of package api, and the failures of the operating system (\<open>os_error\<close>
  says whether a call fails in a world). \<open>pdf_Write\<close> returns the bytes that reached the output
  together with its error; password authentication is part of reading and writing.

  The stage functions describe the calls of the core that return. The core can also panic
  while it processes a source (an index out of range in the parser, a nil dereference):
  \<open>core_panic\<close> says whether it does for a source under a configuration, and gives the value
  of the panic and the bytes that had reached the output by then. Such a panic is an outcome
  of \<open>SetPermissions\<close> below, whose caller runs a deferred function that tells a panic from a
  returned error; the other operations are described for the runs in which the core returns.
\<close>

record env =
  NewDefaultConfiguration :: Configuration
  pdf_Read :: "bytes \<Rightarrow> Configuration \<Rightarrow> error + Context"
  validate_XRefTable :: "XRefTable \<Rightarrow> XRefTable \<times> error option"
  OptimizeXRefTable :: "Context \<Rightarrow> Context \<times> error option"
  pdf_Write :: "Context \<Rightarrow> bytes \<times> error option"
  MergeXRefTables :: "Context \<Rightarrow> Context \<Rightarrow> Context \<times> error option"
  pagesForPageSelection :: "int \<Rightarrow> string list \<Rightarrow> bool \<Rightarrow> IntSet \<times> error option"
  ParsePageSelection :: "string \<Rightarrow> string list \<times> error option"
  os_error :: "event \<Rightarrow> world \<Rightarrow> error option"
  core_panic :: "bytes \<Rightarrow> Configuration \<Rightarrow> (string \<times> bytes) option"

text \<open>A call either returns or panics.\<close>

datatype 'a outcome = Returns 'a | Panics string

definition emit :: "event \<Rightarrow> world \<Rightarrow> world" where
  "emit e w = w\<lparr>trace := trace w @ [e]\<rparr>"

definition os_Open :: "env \<Rightarrow> string \<Rightarrow> world \<Rightarrow> world \<times> error option" where
  "os_Open E name w =
     (if files w name = None
      then (emit (EvOpen name) w, Some (Err (''open '' @ name @ '': no such file or directory'')))
      else (emit (EvOpen name) w, os_error E (EvOpen name) w))"

definition os_Create :: "env \<Rightarrow> string \<Rightarrow> world \<Rightarrow> world \<times> error option" where
  "os_Create E name w =
     (case os_error E (EvCreate name) w of
        Some e \<Rightarrow> (emit (EvCreate name) w, Some e)
      | None \<Rightarrow> (emit (EvCreate name) (w\<lparr>files := (files w)(name \<mapsto> [])\<rparr>), None))"

definition os_Close :: "env \<Rightarrow> string \<Rightarrow> world \<Rightarrow> world \<times> error option" where
  "os_Close E name w = (emit (EvClose name) w, os_error E (EvClose name) w)"

definition os_Remove :: "env \<Rightarrow> string \<Rightarrow> world \<Rightarrow> world \<times> error option" where
  "os_Remove E name w =
     (if files w name = None
      then (emit (EvRemove name) w, Some (Err (''remove '' @ name @ '': no such file or directory'')))
      else (case os_error E (EvRemove name) w of
              Some e \<Rightarrow> (emit (EvRemove name) w, Some e)
            | None \<Rightarrow> (emit (EvRemove name) (w\<lparr>files := (files w)(name := None)\<rparr>), None)))"

definition os_Rename :: "env \<Rightarrow> string \<Rightarrow> string \<Rightarrow> world \<Rightarrow> world \<times> error option" where
  "os_Rename E old new w =
     (case files w old of
        None \<Rightarrow> (emit (EvRename old new) w,
                 Some (Err (''rename '' @ old @ '': no such file or directory'')))
      | Some bs \<Rightarrow>
          (case os_error E (EvRename old new) w of
             Some e \<Rightarrow> (emit (EvRename old new) w, Some e)
           | None \<Rightarrow>
               (emit (EvRename old new) (w\<lparr>files := ((files w)(old := None))(new \<mapsto> bs)\<rparr>), None)))"

definition contents :: "world \<Rightarrow> string \<Rightarrow> bytes" where
  "contents w name = (case files w name of Some bs \<Rightarrow> bs | None \<Rightarrow> [])"

text \<open>\<open>errors.Wrap\<close> prefixes the message of an error.\<close>

definition Wrap :: "error \<Rightarrow> string \<Rightarrow> error" where
  "Wrap e msg = (case e of Err m \<Rightarrow> Err (msg @ '': '' @ m))"

subsection \<open>Package api: reading, validating, optimizing, writing\<close>

definition orDefault :: "env \<Rightarrow> Configuration option \<Rightarrow> Configuration" where
  "orDefault E conf = (case conf of None \<Rightarrow> NewDefaultConfiguration E | Some c \<Rightarrow> c)"

definition ReadContext :: "env \<Rightarrow> bytes \<Rightarrow> Configuration \<Rightarrow> world \<Rightarrow> world \<times> (error + Context)" where
  "ReadContext E rs conf w = (emit (EvRead rs) w, pdf_Read E rs conf)"

definition ValidateContext :: "env \<Rightarrow> Context \<Rightarrow> world \<Rightarrow> world \<times> Context \<times> error option" where
  "ValidateContext E ctx w =
     (case validate_XRefTable E (XRefTable ctx) of
        (x, err) \<Rightarrow> (emit EvValidate w, ctx\<lparr>XRefTable := x\<rparr>, err))"

definition OptimizeContext :: "env \<Rightarrow> Context \<Rightarrow> world \<Rightarrow> world \<times> Context \<times> error option" where
  "OptimizeContext E ctx w =
     (case OptimizeXRefTable E ctx of (ctx', err) \<Rightarrow> (emit EvOptimize w, ctx', err))"

text \<open>
  \<open>WriteContext\<close> attaches the writer and calls \<open>pdf.Write\<close>; the bytes written are appended to
  the file of the writer.
\<close>

definition WriteContext :: "env \<Rightarrow> Context \<Rightarrow> string \<Rightarrow> world \<Rightarrow> world \<times> error option" where
  "WriteContext E ctx wr w =
     (let ctx' = ctx\<lparr>Write := (Write ctx)\<lparr>Writer := Some wr\<rparr>\<rparr>
      in case pdf_Write E ctx' of
           (bs, err) \<Rightarrow>
             (emit (EvWrite ctx') (w\<lparr>files := (files w)(wr \<mapsto> contents w wr @ bs)\<rparr>), err))"

definition readAndValidate ::
  "env \<Rightarrow> bytes \<Rightarrow> Configuration \<Rightarrow> world \<Rightarrow> world \<times> (error + Context)" where
  "readAndValidate E rs conf w =
     (case ReadContext E rs conf w of
        (w1, Inl e) \<Rightarrow> (w1, Inl e)
      | (w1, Inr ctx) \<Rightarrow>
          if Configuration.ValidationMode conf = ValidationNone then (w1, Inr ctx)
          else (case ValidateContext E ctx w1 of
                  (w2, ctx', Some e) \<Rightarrow> (w2, Inl e)
                | (w2, ctx', None) \<Rightarrow> (w2, Inr ctx')))"

definition readValidateAndOptimize ::
  "env \<Rightarrow> bytes \<Rightarrow> Configuration \<Rightarrow> world \<Rightarrow> world \<times> (error + Context)" where
  "readValidateAndOptimize E rs conf w =
     (case readAndValidate E rs conf w of
        (w1, Inl e) \<Rightarrow> (w1, Inl e)
      | (w1, Inr ctx) \<Rightarrow>
          (case OptimizeContext E ctx w1 of
             (w2, ctx', Some e) \<Rightarrow> (w2, Inl e)
           | (w2, ctx', None) \<Rightarrow> (w2, Inr ctx')))"

definition Validate :: "env \<Rightarrow> bytes \<Rightarrow> Configuration option \<Rightarrow> world \<Rightarrow> world \<times> error option" where
  "Validate E rs conf w =
     (let conf = (orDefault E conf)\<lparr>Cmd := VALIDATE\<rparr>
      in if Configuration.ValidationMode conf = ValidationNone
         then (w, Some (Err ''validate: mode == ValidationNone''))
         else (case ReadContext E rs conf w of
                 (w1, Inl e) \<Rightarrow> (w1, Some e)
               | (w1, Inr ctx) \<Rightarrow>
                   (case ValidateContext E ctx w1 of
                      (w2, ctx', None) \<Rightarrow> (w2, None)
                    | (w2, ctx', Some e) \<Rightarrow>
                        (w2, Some (Wrap e (''validation error'' @
                           (if Configuration.ValidationMode conf = ValidationStrict
                            then '' (try -mode=relaxed)'' else [])))))))"

text \<open>The deferred \<open>f.Close()\<close> runs after \<open>Validate\<close>; its error is dropped.\<close>

definition ValidateFile :: "env \<Rightarrow> string \<Rightarrow> Configuration option \<Rightarrow> world \<Rightarrow> world \<times> error option" where
  "ValidateFile E inFile conf w =
     (let conf = orDefault E conf
      in if Configuration.ValidationMode conf = ValidationNone then (w, None)
         else (case os_Open E inFile w of
                 (w1, Some e) \<Rightarrow> (w1, Some e)
               | (w1, None) \<Rightarrow>
                   (case Validate E (contents w1 inFile) (Some conf) w1 of
                      (w2, err) \<Rightarrow> (fst (os_Close E inFile w2), err))))"

text \<open>
  \<open>SetPermissions\<close> reads from \<open>rs\<close>, here the bytes of the source, and writes to the writer
  \<open>wr\<close>. It returns what the pipeline returns, or it panics when the core does. Of a run
  that panics the trace records the read, which is the first call of the core in any case,
  and not the later calls; the bytes that the core had put out are in the file of the writer.
\<close>

definition SetPermissions ::
  "env \<Rightarrow> bytes \<Rightarrow> string \<Rightarrow> Configuration option \<Rightarrow> world \<Rightarrow> world \<times> error option outcome" where
  "SetPermissions E rs wr conf w =
     (case conf of
        None \<Rightarrow> (w, Returns (Some (Err ''missing configuration for setting permissions'')))
      | Some c \<Rightarrow>
          (case core_panic E rs (c\<lparr>Cmd := SETPERMISSIONS\<rparr>) of
             Some (p, bs) \<Rightarrow>
               (emit (EvRead rs) (w\<lparr>files := (files w)(wr \<mapsto> contents w wr @ bs)\<rparr>), Panics p)
           | None \<Rightarrow>
               (case readValidateAndOptimize E rs (c\<lparr>Cmd := SETPERMISSIONS\<rparr>) w of
                  (w1, Inl e) \<Rightarrow> (w1, Returns (Some e))
                | (w1, Inr ctx) \<Rightarrow>
                    (case WriteContext E ctx wr w1 of (w2, err) \<Rightarrow> (w2, Returns err)))))"

text \<open>
  The deferred function of \<open>SetPermissionsFile\<close>: \<open>err\<close> is the named result when the function
  runs. The errors of the two \<open>Close\<close> calls and of \<open>os.Remove\<close> on the error path are dropped
  by the code; an error of \<open>Close\<close> or \<open>os.Rename\<close> on the other path becomes the result.
\<close>

definition SetPermissionsFile_deferred ::
  "env \<Rightarrow> string \<Rightarrow> string \<Rightarrow> string \<Rightarrow> error option \<Rightarrow> world \<Rightarrow> world \<times> error option" where
  "SetPermissionsFile_deferred E inFile outFile tmpFile err w =
     (if err \<noteq> None then
        (let w1 = fst (os_Close E tmpFile w);
             w2 = fst (os_Close E inFile w1);
             w3 = (if outFile = [] \<or> inFile = outFile then fst (os_Remove E tmpFile w2) else w2)
         in (w3, err))
      else
        (case os_Close E tmpFile w of
           (w1, Some e) \<Rightarrow> (w1, Some e)
         | (w1, None) \<Rightarrow>
             (case os_Close E inFile w1 of
                (w2, Some e) \<Rightarrow> (w2, Some e)
              | (w2, None) \<Rightarrow>
                  if outFile = [] \<or> inFile = outFile then os_Rename E tmpFile inFile w2
                  else (w2, None))))"

text \<open>
  \<open>SetPermissionsFile\<close>. The deferred function is registered once both files are open. When
  \<open>SetPermissions\<close> returns, its error is the named result \<open>err\<close> and the deferred function
  decides what is returned. When \<open>SetPermissions\<close> panics, \<open>err\<close> still is \<open>nil\<close> from the
  successful \<open>os.Create\<close>; the deferred function runs with it and the panic goes on to the
  caller.
\<close>

definition SetPermissionsFile ::
  "env \<Rightarrow> string \<Rightarrow> string \<Rightarrow> Configuration option \<Rightarrow> world \<Rightarrow> world \<times> error option outcome" where
  "SetPermissionsFile E inFile outFile conf w =
     (if conf = None
      then (w, Returns (Some (Err ''missing configuration for setting permissions'')))
      else
        (case os_Open E inFile w of
           (w1, Some e) \<Rightarrow> (w1, Returns (Some e))
         | (w1, None) \<Rightarrow>
             (let tmpFile = (if outFile \<noteq> [] \<and> inFile \<noteq> outFile then outFile
                             else inFile @ ''.tmp'')
              in case os_Create E tmpFile w1 of
                   (w2, Some e) \<Rightarrow> (w2, Returns (Some e))
                 | (w2, None) \<Rightarrow>
                     (case SetPermissions E (contents w2 inFile) tmpFile conf w2 of
                        (w3, Returns err) \<Rightarrow>
                          (case SetPermissionsFile_deferred E inFile outFile tmpFile err w3 of
                             (w4, err') \<Rightarrow> (w4, Returns err'))
                      | (w3, Panics p) \<Rightarrow>
                          (fst (SetPermissionsFile_deferred E inFile outFile tmpFile None w3),
                           Panics p)))))"



text \<open>\<open>appendTo\<close> reads and validates one source and merges it into the destination.\<close>

definition appendTo :: "env \<Rightarrow> bytes \<Rightarrow> Context \<Rightarrow> world \<Rightarrow> world \<times> Context \<times> error option" where
  "appendTo E rs ctxDest w =
     (case readAndValidate E rs (Configuration ctxDest) w of
        (w1, Inl e) \<Rightarrow> (w1, ctxDest, Some e)
      | (w1, Inr ctxSource) \<Rightarrow>
          (case MergeXRefTables E ctxSource ctxDest of
             (ctxDest', err) \<Rightarrow> (emit (EvMerge ctxSource ctxDest) w1, ctxDest', err)))"

text \<open>The loop of \<open>Merge\<close> over \<open>rsc[1:]\<close>.\<close>

fun Merge_loop :: "env \<Rightarrow> bytes list \<Rightarrow> Context \<Rightarrow> world \<Rightarrow> world \<times> Context \<times> error option" where
  "Merge_loop E [] ctxDest w = (w, ctxDest, None)"
| "Merge_loop E (f # fs) ctxDest w =
     (case appendTo E f ctxDest w of
        (w1, ctxDest', Some e) \<Rightarrow> (w1, ctxDest', Some e)
      | (w1, ctxDest', None) \<Rightarrow> Merge_loop E fs ctxDest' w1)"

text \<open>
  The first statement of \<open>Merge\<close> after the destination has been read: the root version is
  set to 1.5 when the version of the destination is lower.
\<close>

definition Merge_ensureV15 :: "Context \<Rightarrow> Context" where
  "Merge_ensureV15 ctxDest =
     (if Version (XRefTable ctxDest) < V15
      then ctxDest\<lparr>XRefTable := (XRefTable ctxDest)\<lparr>RootVersion := Some (fst (PDFVersion ''1.5''))\<rparr>\<rparr>
      else ctxDest)"

text \<open>\<open>Merge\<close>: \<open>rsc[0]\<close> panics on an empty slice.\<close>

definition Merge ::
  "env \<Rightarrow> bytes list \<Rightarrow> string \<Rightarrow> Configuration option \<Rightarrow> world \<Rightarrow> world \<times> error option outcome" where
  "Merge E rsc wr conf w =
     (let conf = (orDefault E conf)\<lparr>Cmd := MERGE\<rparr>
      in case rsc of
           [] \<Rightarrow> (w, Panics ''index out of range [0] with length 0'')
         | r # rest \<Rightarrow>
             (case readAndValidate E r conf w of
                (w1, Inl e) \<Rightarrow> (w1, Returns (Some e))
              | (w1, Inr ctxDest) \<Rightarrow>
                  (let ctxDest = Merge_ensureV15 ctxDest
                   in case Merge_loop E rest ctxDest w1 of
                        (w2, ctxDest, Some e) \<Rightarrow> (w2, Returns (Some e))
                      | (w2, ctxDest, None) \<Rightarrow>
                          (case OptimizeContext E ctxDest w2 of
                             (w3, ctxDest, Some e) \<Rightarrow> (w3, Returns (Some e))
                           | (w3, ctxDest, None) \<Rightarrow>
                               if Configuration.ValidationMode conf \<noteq> ValidationNone
                               then (case ValidateContext E ctxDest w3 of
                                       (w4, ctxDest, Some e) \<Rightarrow> (w4, Returns (Some e))
                                     | (w4, ctxDest, None) \<Rightarrow>
                                         (case WriteContext E ctxDest wr w4 of
                                            (w5, err) \<Rightarrow> (w5, Returns err)))
                               else (case WriteContext E ctxDest wr w3 of
                                       (w5, err) \<Rightarrow> (w5, Returns err))))))"

subsection \<open>Package api: split\<close>

text \<open>
  The page numbers and the span are Go \<open>int\<close>s. They are modelled as integers with Go's
  truncating division \<open>sdiv\<close> and remainder \<open>smod\<close>; a division by zero panics. For a span of at
  least 1 every number computed lies between 0 and the page count (lemma \<open>span_bounds\<close>), so
  64 bit arithmetic does not wrap there.
\<close>

function selectedPageRange_loop :: "int \<Rightarrow> int \<Rightarrow> IntSet \<Rightarrow> IntSet" where
  "selectedPageRange_loop i thru s =
     (if i \<le> thru then selectedPageRange_loop (i + 1) thru (fmupd i True s) else s)"
  by pat_completeness auto
termination
  by (relation "measure (\<lambda>(i, thru, s). nat (thru + 1 - i))") auto

declare selectedPageRange_loop.simps [simp del]

definition selectedPageRange :: "int \<Rightarrow> int \<Rightarrow> IntSet" where
  "selectedPageRange from thru = selectedPageRange_loop from thru fmempty"

text \<open>\<open>strconv.Itoa\<close>: the decimal digits of an integer.\<close>

fun digits :: "nat \<Rightarrow> string" where
  "digits n = (if n < 10 then [''0123456789'' ! n] else digits (n div 10) @ [''0123456789'' ! (n mod 10)])"

definition Itoa :: "int \<Rightarrow> string" where
  "Itoa i = (if i < 0 then CHR ''-'' # digits (nat (- i)) else digits (nat i))"

text \<open>\<open>filepath.Base\<close> for the separator \<open>/\<close>, and \<open>strings.TrimSuffix\<close>.\<close>

definition Base :: "string \<Rightarrow> string" where
  "Base path =
     (if path = [] then ''.''
      else (let p = rev (dropWhile (\<lambda>c. c = CHR ''/'') (rev path))
            in if p = [] then ''/'' else rev (takeWhile (\<lambda>c. c \<noteq> CHR ''/'') (rev p))))"

definition HasSuffix :: "string \<Rightarrow> string \<Rightarrow> bool" where
  "HasSuffix s suf = (length suf \<le> length s \<and> drop (length s - length suf) s = suf)"

definition TrimSuffix :: "string \<Rightarrow> string \<Rightarrow> string" where
  "TrimSuffix s suf = (if HasSuffix s suf then take (length s - length suf) s else s)"

definition spanFileName :: "string \<Rightarrow> int \<Rightarrow> int \<Rightarrow> string" where
  "spanFileName fileName from thru =
     (let baseFileName = Base fileName;
          fn = TrimSuffix baseFileName ''.pdf'';
          fn = fn @ ''_'' @ Itoa from
      in if from = thru then fn @ ''.pdf'' else fn @ ''-'' @ Itoa thru @ ''.pdf'')"

text \<open>
  Modelled from the spec: \<open>Context.ResetWriteContext\<close>, which installs a fresh write context.
\<close>

definition ResetWriteContext :: "Context \<Rightarrow> Context" where
  "ResetWriteContext ctx =
     ctx\<lparr>Write := \<lparr>SelectedPages = fmempty, DirName = [], FileName = [], Writer = None\<rparr>\<rparr>"

text \<open>
  \<open>writeSpan\<close> calls \<open>pdf.Write\<close> without a writer: \<open>pdf.Write\<close> itself creates the file named by
  \<open>DirName\<close> and \<open>FileName\<close>. The write event, which carries both names and the selected pages,
  stands for that file.
\<close>

definition writeSpan ::
  "env \<Rightarrow> Context \<Rightarrow> int \<Rightarrow> int \<Rightarrow> string \<Rightarrow> string \<Rightarrow> world \<Rightarrow> world \<times> error option" where
  "writeSpan E ctx from thru outDir fileName w =
     (let ctx = ResetWriteContext ctx;
          ctx = ctx\<lparr>Write := (Write ctx)\<lparr>SelectedPages := selectedPageRange from thru,
                                           DirName := outDir,
                                           FileName := spanFileName fileName from thru\<rparr>\<rparr>
      in (emit (EvWrite ctx) w, snd (pdf_Write E ctx)))"

function writePDFSequence_loop ::
  "env \<Rightarrow> Context \<Rightarrow> int \<Rightarrow> string \<Rightarrow> string \<Rightarrow> int \<Rightarrow> world \<Rightarrow> world \<times> error option outcome" where
  "writePDFSequence_loop E ctx span' outDir fileName i w =
     (if span' = 0 then (w, Panics ''integer divide by zero'')
      else if i < PageCount (XRefTable ctx) sdiv span' then
        (let start = i * span'; from = start + 1; thru = start + span'
         in case writeSpan E ctx from thru outDir fileName w of
              (w1, Some e) \<Rightarrow> (w1, Returns (Some e))
            | (w1, None) \<Rightarrow> writePDFSequence_loop E ctx span' outDir fileName (i + 1) w1)
      else (w, Returns None))"
  by pat_completeness auto
termination
  by (relation "measure (\<lambda>(E, ctx, span', outDir, fileName, i, w).
                  nat (PageCount (XRefTable ctx) sdiv span' - i))") auto

declare writePDFSequence_loop.simps [simp del]

definition writePDFSequence ::
  "env \<Rightarrow> Context \<Rightarrow> int \<Rightarrow> string \<Rightarrow> string \<Rightarrow> world \<Rightarrow> world \<times> error option outcome" where
  "writePDFSequence E ctx span' outDir fileName w =
     (case writePDFSequence_loop E ctx span' outDir fileName 0 w of
        (w1, Panics p) \<Rightarrow> (w1, Panics p)
      | (w1, Returns (Some e)) \<Rightarrow> (w1, Returns (Some e))
      | (w1, Returns None) \<Rightarrow>
          if PageCount (XRefTable ctx) smod span' > 0 then
            (let start = (PageCount (XRefTable ctx) sdiv span') * span';
                 from = start + 1;
                 thru = start + PageCount (XRefTable ctx) smod span'
             in case writeSpan E ctx from thru outDir fileName w1 of
                  (w2, err) \<Rightarrow> (w2, Returns err))
          else (w1, Returns None))"

definition Split ::
  "env \<Rightarrow> bytes \<Rightarrow> string \<Rightarrow> string \<Rightarrow> int \<Rightarrow> Configuration option \<Rightarrow> world
     \<Rightarrow> world \<times> error option outcome" where
  "Split E rs outDir fileName span' conf w =
     (let conf = (orDefault E conf)\<lparr>Cmd := SPLIT\<rparr>
      in case readValidateAndOptimize E rs conf w of
           (w1, Inl e) \<Rightarrow> (w1, Returns (Some e))
         | (w1, Inr ctx) \<Rightarrow> writePDFSequence E ctx span' outDir fileName w1)"

text \<open>The deferred \<open>f.Close()\<close> of \<open>SplitFile\<close> runs on return and on panic.\<close>

definition SplitFile ::
  "env \<Rightarrow> string \<Rightarrow> string \<Rightarrow> int \<Rightarrow> Configuration option \<Rightarrow> world \<Rightarrow> world \<times> error option outcome" where
  "SplitFile E inFile outDir span' conf w =
     (case os_Open E inFile w of
        (w1, Some e) \<Rightarrow> (w1, Returns (Some e))
      | (w1, None) \<Rightarrow>
          (case Split E (contents w1 inFile) outDir (Base inFile) span' conf w1 of
             (w2, res) \<Rightarrow> (fst (os_Close E inFile w2), res)))"

subsection \<open>The command line: package cli and the command handlers\<close>

text \<open>
  On the command line a Go \<open>int\<close> is a 64 bit word: \<open>-\<close> wraps around, \<open><\<close> and \<open>%\<close> are signed,
  and \<open>%\<close> truncates towards zero.
\<close>

type_synonym go_int = "64 word"

definition abs_int :: "go_int \<Rightarrow> go_int" where
  "abs_int i = (if i <s 0 then - i else i)"

definition rem_int :: "go_int \<Rightarrow> go_int \<Rightarrow> go_int" where
  "rem_int a b = word_of_int (sint a smod sint b)"

text \<open>
  \<open>strconv.Atoi\<close>: an optional sign and decimal digits; a value outside of the 64 bit range
  is an error.
\<close>

fun parse_digits :: "nat \<Rightarrow> string \<Rightarrow> nat option" where
  "parse_digits acc [] = Some acc"
| "parse_digits acc (c # cs) =
     (case map_of (zip ''0123456789'' [0, 1, 2, 3, 4, 5, 6, 7, 8, 9]) c of
        None \<Rightarrow> None
      | Some d \<Rightarrow> parse_digits (acc * 10 + d) cs)"

definition Atoi :: "string \<Rightarrow> go_int \<times> error option" where
  "Atoi s =
     (let (neg, body) = (case s of
                           c # r \<Rightarrow> if c = CHR ''-'' then (True, r)
                                    else if c = CHR ''+'' then (False, r) else (False, s)
                         | [] \<Rightarrow> (False, s))
      in if body = [] then (0, Some (Err ''strconv.Atoi: invalid syntax''))
         else (case parse_digits 0 body of
                 None \<Rightarrow> (0, Some (Err ''strconv.Atoi: invalid syntax''))
               | Some n \<Rightarrow>
                   (let v = (if neg then - int n else int n)
                    in if v < - (2 ^ 63)
                       then (word_of_int (- (2 ^ 63)), Some (Err ''strconv.Atoi: value out of range''))
                       else if v > 2 ^ 63 - 1
                       then (word_of_int (2 ^ 63 - 1), Some (Err ''strconv.Atoi: value out of range''))
                       else (word_of_int v, None))))"

text \<open>\<open>strings.ToLower\<close> on the letters A to Z; no other character lowers to one of \<open>.pdf\<close>.\<close>

definition ToLower :: "string \<Rightarrow> string" where
  "ToLower s =
     map (\<lambda>c. case map_of (zip ''ABCDEFGHIJKLMNOPQRSTUVWXYZ'' ''abcdefghijklmnopqrstuvwxyz'') c of
                 Some l \<Rightarrow> l | None \<Rightarrow> c) s"

definition hasPdfExtension :: "string \<Rightarrow> bool" where
  "hasPdfExtension filename = HasSuffix (ToLower filename) ''.pdf''"

text \<open>\<open>flag.Arg(i)\<close> is the empty string when there is no such argument.\<close>

definition Arg :: "string list \<Rightarrow> nat \<Rightarrow> string" where
  "Arg args i = (if i < length args then args ! i else [])"

text \<open>
  \<open>cli.Command\<close>, without the watermark, import and n-up descriptions and the stream fields,
  which no command below sets.
\<close>

record Command =
  Mode :: CommandMode
  InFile :: "string option"
  InFiles :: "string list"
  InDir :: "string option"
  OutFile :: "string option"
  OutDir :: "string option"
  PageSelection :: "string list"
  Conf :: "Configuration option"
  PWOld :: "string option"
  PWNew :: "string option"
  Span :: go_int
  Rotation :: go_int

definition SplitCommand ::
  "env \<Rightarrow> string \<Rightarrow> string \<Rightarrow> go_int \<Rightarrow> Configuration option \<Rightarrow> Command" where
  "SplitCommand E inFile dirNameOut span' conf =
     \<lparr>Mode = SPLIT, InFile = Some inFile, InFiles = [], InDir = None, OutFile = None,
      OutDir = Some dirNameOut, PageSelection = [],
      Conf = Some ((orDefault E conf)\<lparr>Cmd := SPLIT\<rparr>), PWOld = None, PWNew = None,
      Span = span', Rotation = 0\<rparr>"

definition RotateCommand ::
  "env \<Rightarrow> string \<Rightarrow> string \<Rightarrow> go_int \<Rightarrow> string list \<Rightarrow> Configuration option \<Rightarrow> Command" where
  "RotateCommand E inFile outFile rotation pageSelection conf =
     \<lparr>Mode = ROTATE, InFile = Some inFile, InFiles = [], InDir = None, OutFile = Some outFile,
      OutDir = None, PageSelection = pageSelection,
      Conf = Some ((orDefault E conf)\<lparr>Cmd := ROTATE\<rparr>), PWOld = None, PWNew = None,
      Span = 0, Rotation = rotation\<rparr>"

text \<open>
  A command handler either exits with a code after a message on standard error, or hands a
  command to \<open>process\<close>. The usage texts are parameters.
\<close>

datatype handled = Exit int string | Processes Command

definition nl :: string where
  "nl = [CHR 0x0A]"

definition handleSplitCommand ::
  "env \<Rightarrow> string \<Rightarrow> string list \<Rightarrow> string \<Rightarrow> Configuration option \<Rightarrow> handled" where
  \<open>handleSplitCommand E usageSplit args selectedPages conf =
     (if length args < 2 \<or> length args > 3 \<or> selectedPages \<noteq> [] then Exit 1 (usageSplit @ nl @ nl)
      else
        (let inFile = Arg args 0
         in if \<not> hasPdfExtension inFile then Exit 1 (inFile @ '' needs extension ".pdf".'' @ nl)
            else
              (let outDir = Arg args 1
               in if length args = 3 then
                    (case Atoi (Arg args 2) of
                       (span', err) \<Rightarrow>
                         if err \<noteq> None \<or> span' <s 1
                         then Exit 1 (''split: span is a numeric value >= 1'' @ nl)
                         else Processes (SplitCommand E inFile outDir span' conf))
                  else Processes (SplitCommand E inFile outDir 1 conf))))\<close>

definition handleRotateCommand ::
  "env \<Rightarrow> string \<Rightarrow> string list \<Rightarrow> string \<Rightarrow> Configuration option \<Rightarrow> handled" where
  \<open>handleRotateCommand E usageRotate args selectedPages conf =
     (if length args < 2 then Exit 1 (usageRotate @ nl @ nl)
      else
        (let inFile = Arg args 0
         in if \<not> hasPdfExtension inFile then Exit 1 (inFile @ '' needs extension ".pdf".'' @ nl)
            else
              (case Atoi (Arg args 1) of
                 (rotation, err) \<Rightarrow>
                   if err \<noteq> None \<or> 0 <s rem_int (abs_int rotation) 90
                   then Exit 1 (''rotation must be a multiple of 90: '' @ Arg args 1 @ nl)
                   else
                     (case ParsePageSelection E selectedPages of
                        (pages, Some e) \<Rightarrow>
                          Exit 1 (''problem with flag selectedPages: '' @ (case e of Err m \<Rightarrow> m) @ nl)
                      | (pages, None) \<Rightarrow>
                          Processes (RotateCommand E inFile [] rotation pages conf)))))\<close>

text \<open>
  \<open>cli.Split\<close> dereferences the file and directory names of the command and calls
  \<open>api.SplitFile\<close> with the span of the command.
\<close>

definition cli_Split :: "env \<Rightarrow> Command \<Rightarrow> world \<Rightarrow> world \<times> (string list \<times> error option) outcome" where
  "cli_Split E cmd w =
     (case (InFile cmd, OutDir cmd) of
        (Some inFile, Some outDir) \<Rightarrow>
          (case SplitFile E inFile outDir (sint (Span cmd)) (Conf cmd) w of
             (w1, Panics p) \<Rightarrow> (w1, Panics p)
           | (w1, Returns err) \<Rightarrow> (w1, Returns ([], err)))
      | _ \<Rightarrow> (w, Panics ''invalid memory address or nil pointer dereference''))"

text \<open>
  \<open>cli.Process\<close>. The table \<open>cmdMap\<close> of command functions is a parameter. The body sets the
  command mode in the configuration, which panics if the command has none, and calls the
  function of the mode. The deferred function turns a panic, whose value prints as \<open>r\<close>, into
  an error.
\<close>

type_synonym cmdFun = "Command \<Rightarrow> world \<Rightarrow> world \<times> (string list \<times> error option) outcome"

definition Process_body ::
  "(CommandMode \<Rightarrow> cmdFun option) \<Rightarrow> Command \<Rightarrow> world \<Rightarrow> world \<times> (string list \<times> error option) outcome" where
  "Process_body cmdMap cmd w =
     (case Conf cmd of
        None \<Rightarrow> (w, Panics ''invalid memory address or nil pointer dereference'')
      | Some c \<Rightarrow>
          (let cmd = cmd\<lparr>Conf := Some (c\<lparr>Cmd := Mode cmd\<rparr>)\<rparr>
           in case cmdMap (Mode cmd) of
                Some f \<Rightarrow> f cmd w
              | None \<Rightarrow> (w, Returns ([], Some (Err ''Process: Unknown command mode'')))))"

definition Process ::
  "(CommandMode \<Rightarrow> cmdFun option) \<Rightarrow> Command \<Rightarrow> world \<Rightarrow> world \<times> (string list \<times> error option) outcome" where
  "Process cmdMap cmd w =
     (case Process_body cmdMap cmd w of
        (w1, Panics r) \<Rightarrow> (w1, Returns ([], Some (Err (''unexpected panic attack: '' @ r @ nl))))
      | (w1, Returns res) \<Rightarrow> (w1, Returns res))"

subsection \<open>Sample inputs\<close>

text \<open>
  A small table, a configuration, an environment whose operations all succeed and a world
  with one input file; the theorems are instantiated with them below. The sample reader
  yields a context with one page per byte of its input and version 1.4.
\<close>

definition sampleTable :: XRefTable where
  "sampleTable =
     \<lparr>Table = (\<lambda>n. None), Root = Null, Info = None, HeaderVersion = V14, RootVersion = None,
      ValidationMode = ValidationRelaxed, PageCount = 0, Title = [], Author = [], Subject = [],
      Keywords = [], Creator = [], Producer = [], CreationDate = [], ModDate = []\<rparr>"

definition sampleConf :: Configuration where
  "sampleConf = \<lparr>Cmd = VALIDATE, ValidationMode = ValidationRelaxed, UserPW = [], OwnerPW = []\<rparr>"

definition sampleContext :: "bytes \<Rightarrow> Configuration \<Rightarrow> Context" where
  "sampleContext rs conf =
     \<lparr>XRefTable = sampleTable\<lparr>PageCount := int (length rs)\<rparr>, Configuration = conf,
      Write = \<lparr>SelectedPages = fmempty, DirName = [], FileName = [], Writer = None\<rparr>\<rparr>"

definition sampleEnv :: env where
  "sampleEnv =
     \<lparr>NewDefaultConfiguration = sampleConf,
      pdf_Read = (\<lambda>rs conf. Inr (sampleContext rs conf)),
      validate_XRefTable = (\<lambda>x. (x, None)),
      OptimizeXRefTable = (\<lambda>ctx. (ctx, None)),
      pdf_Write = (\<lambda>ctx. (''%PDF'', None)),
      MergeXRefTables = (\<lambda>src dst. (dst, None)),
      pagesForPageSelection = (\<lambda>n sel ensureAll. (selectedPageRange 1 (int (length sel)), None)),
      ParsePageSelection = (\<lambda>s. ([], None)),
      os_error = (\<lambda>ev w. None),
      core_panic = (\<lambda>rs conf. None)\<rparr>"

definition sampleWorld :: world where
  "sampleWorld = \<lparr>files = [''in.pdf'' \<mapsto> ''abc''], trace = []\<rparr>"

text \<open>
  A table in relaxed mode whose catalog has a \<open>PieceInfo\<close> entry and whose info dictionary has
  a title and no \<open>ModDate\<close>.
\<close>

definition pieceInfoTable :: XRefTable where
  "pieceInfoTable =
     sampleTable\<lparr>Table := [1 \<mapsto> InUse 0 (Dict [(''Type'', Name ''Catalog''), (''PieceInfo'', Dict [])]),
                            2 \<mapsto> InUse 0 (Dict [(''Title'', StringLiteral ''t'')])],
                 Root := IndirectRef 1 0, Info := Some (IndirectRef 2 0)\<rparr>"







subsection \<open>Auxiliary notions\<close>



text \<open>The events that a run from \<open>w\<close> to \<open>w'\<close> has added, and the write events.\<close>

definition new_events :: "world \<Rightarrow> world \<Rightarrow> event list" where
  "new_events w w' = drop (length (trace w)) (trace w')"

definition is_write :: "event \<Rightarrow> bool" where
  "is_write ev = (case ev of EvWrite ctx \<Rightarrow> True | _ \<Rightarrow> False)"

text \<open>
  An event respects version 1.5 if the destination of a merge, or the context written, has
  an effective version of at least 1.5.
\<close>

definition at_least_V15 :: "event \<Rightarrow> bool" where
  "at_least_V15 ev =
     (case ev of
        EvMerge src dst \<Rightarrow> V15 \<le> Version (XRefTable dst)
      | EvWrite ctx \<Rightarrow> V15 \<le> Version (XRefTable ctx)
      | _ \<Rightarrow> True)"

text \<open>
  The context that \<open>writeSpan\<close> hands to the writer for the pages \<open>from .. thru\<close>, the write
  event of the \<open>k\<close>-th span of a document, and the pages and the file name of a write event.
\<close>

definition spanContext :: "Context \<Rightarrow> int \<Rightarrow> int \<Rightarrow> string \<Rightarrow> string \<Rightarrow> Context" where
  "spanContext ctx from thru outDir fileName =
     ctx\<lparr>Write := \<lparr>SelectedPages = selectedPageRange from thru, DirName = outDir,
                   FileName = spanFileName fileName from thru, Writer = None\<rparr>\<rparr>"

definition spanEvent :: "Context \<Rightarrow> int \<Rightarrow> string \<Rightarrow> string \<Rightarrow> int \<Rightarrow> event" where
  "spanEvent ctx span' outDir fileName k =
     EvWrite (spanContext ctx (k * span' + 1) (min (k * span' + span') (PageCount (XRefTable ctx)))
                outDir fileName)"

definition selected_pages :: "event \<Rightarrow> int set" where
  "selected_pages ev =
     (case ev of
        EvWrite ctx \<Rightarrow> {p. fmlookup (SelectedPages (Write ctx)) p = Some True}
      | _ \<Rightarrow> {})"

definition file_name :: "event \<Rightarrow> string" where
  "file_name ev = (case ev of EvWrite ctx \<Rightarrow> FileName (Write ctx) | _ \<Rightarrow> [])"

text \<open>A table of command functions that holds \<open>cli.Split\<close> on the sample environment.\<close>

definition splitMap :: "CommandMode \<Rightarrow> cmdFun option" where
  "splitMap m = (if m = SPLIT then Some (cli_Split sampleEnv) else None)"

text \<open>Two tables with the same objects, the same catalog and the same mode.\<close>

definition same_objects :: "XRefTable \<Rightarrow> XRefTable \<Rightarrow> bool" where
  "same_objects x y =
     (Table y = Table x \<and> Root y = Root x \<and> XRefTable.ValidationMode y = XRefTable.ValidationMode x)"

section \<open>Properties\<close>

lemmas Version_defs = V10_def V11_def V12_def V13_def V14_def V15_def V16_def V17_def

subsection \<open>The info dictionary: ModDate and PieceInfo\<close>

lemma entry_same_objects:
  "validateDocumentInfoDict_entry isDate x h k v = (x', h', err) \<Longrightarrow> same_objects x x'"
  by (auto simp: validateDocumentInfoDict_entry_def same_objects_def split: if_splits prod.splits)

lemma entry_hasModDate:
  "validateDocumentInfoDict_entry isDate x h k v = (x', h', err) \<Longrightarrow> k \<noteq> ''ModDate'' \<Longrightarrow> h' = h"
  by (auto simp: validateDocumentInfoDict_entry_def split: if_splits prod.splits)

lemma loop_same_objects:
  "validateDocumentInfoDict_loop isDate x h d = (x', h', err) \<Longrightarrow> same_objects x x'"
proof (induction d arbitrary: x h)
  case Nil
  then show ?case by (simp add: same_objects_def)
next
  case (Cons kv d)
  obtain k v where kv: "kv = (k, v)" by (cases kv)
  obtain x1 h1 e1 where e: "validateDocumentInfoDict_entry isDate x h k v = (x1, h1, e1)"
    by (cases "validateDocumentInfoDict_entry isDate x h k v") auto
  have s1: "same_objects x x1" using e by (rule entry_same_objects)
  show ?case
  proof (cases e1)
    case None
    with Cons.prems kv e have "validateDocumentInfoDict_loop isDate x1 h1 d = (x', h', err)" by simp
    then have "same_objects x1 x'" by (rule Cons.IH)
    with s1 show ?thesis by (simp add: same_objects_def)
  next
    case (Some a)
    with Cons.prems kv e have "x' = x1" by simp
    with s1 show ?thesis by simp
  qed
qed

text \<open>Without a \<open>ModDate\<close> key the loop never sets \<open>hasModDate\<close>.\<close>

lemma loop_hasModDate:
  "validateDocumentInfoDict_loop isDate x False d = (x', h', err) \<Longrightarrow>
   ''ModDate'' \<notin> fst ` set d \<Longrightarrow> \<not> h'"
proof (induction d arbitrary: x)
  case Nil
  then show ?case by simp
next
  case (Cons kv d)
  obtain k v where kv: "kv = (k, v)" by (cases kv)
  obtain x1 h1 e1 where e: "validateDocumentInfoDict_entry isDate x False k v = (x1, h1, e1)"
    by (cases "validateDocumentInfoDict_entry isDate x False k v") auto
  from Cons.prems(2) kv have k: "k \<noteq> ''ModDate''" and d: "''ModDate'' \<notin> fst ` set d" by auto
  have h1: "\<not> h1" using entry_hasModDate [OF e k] by simp
  show ?case
  proof (cases e1)
    case None
    with Cons.prems(1) kv e h1
    have "validateDocumentInfoDict_loop isDate x1 False d = (x', h', err)" by simp
    then show ?thesis using d by (rule Cons.IH)
  next
    case (Some a)
    with Cons.prems(1) kv e show ?thesis by simp
  qed
qed

lemma Dereference_same_objects:
  "same_objects x y \<Longrightarrow> Dereference y ob = Dereference x ob"
  by (cases ob) (simp_all add: Dereference_def same_objects_def)

lemma CatalogHasPieceInfo_same_objects:
  "same_objects x y \<Longrightarrow> CatalogHasPieceInfo y = CatalogHasPieceInfo x"
  using Dereference_same_objects [of x y "Root x"]
  by (simp add: CatalogHasPieceInfo_def DereferenceDict_def same_objects_def)

text \<open>
  C1, as the code has it. When the catalog has a \<open>PieceInfo\<close> entry and the info dictionary has
  no \<open>ModDate\<close> key, \<open>validateDocumentInfoObject\<close> returns an error in every validation mode,
  relaxed mode included: the check for the missing \<open>ModDate\<close> does not look at the mode. If all
  entries of the info dictionary are valid, the error is the missing required entry.
\<close>

theorem validateDocumentInfoObject_requires_ModDate:
  assumes "Info x = Some info"
    and "DereferenceDict x info = (Some d, None)"
    and "''ModDate'' \<notin> fst ` set d"
    and "CatalogHasPieceInfo x = (True, None)"
  shows "snd (validateDocumentInfoObject isDate x) \<noteq> None
       \<and> (snd (snd (validateDocumentInfoDict isDate x info)) = None \<longrightarrow>
            snd (validateDocumentInfoObject isDate x) =
              Some (Err ''validateDocumentInfoObject: missing required entry \"ModDate\"''))"
proof -
  obtain x' h' err where l: "validateDocumentInfoDict_loop isDate x False d = (x', h', err)"
    by (cases "validateDocumentInfoDict_loop isDate x False d") auto
  have h: "\<not> h'" using l assms(3) by (rule loop_hasModDate)
  have "same_objects x x'" using l by (rule loop_same_objects)
  then have c: "CatalogHasPieceInfo x' = (True, None)"
    using assms(4) by (simp add: CatalogHasPieceInfo_same_objects)
  have v: "validateDocumentInfoDict isDate x info = (x', h', err)"
    using assms(2) l by (simp add: validateDocumentInfoDict_def)
  show ?thesis
    using assms(1) v h c by (cases err) (simp_all add: validateDocumentInfoObject_def)
qed

text \<open>The theorem in strict and in relaxed mode, on the table with \<open>PieceInfo\<close>.\<close>

theorem validateDocumentInfoObject_requires_ModDate_witness:
  "Info pieceInfoTable = Some (IndirectRef 2 0)
   \<and> DereferenceDict pieceInfoTable (IndirectRef 2 0) = (Some [(''Title'', StringLiteral ''t'')], None)
   \<and> CatalogHasPieceInfo pieceInfoTable = (True, None)
   \<and> snd (validateDocumentInfoObject (\<lambda>s. True)
            (pieceInfoTable\<lparr>XRefTable.ValidationMode := ValidationStrict\<rparr>)) \<noteq> None
   \<and> snd (validateDocumentInfoObject (\<lambda>s. True) pieceInfoTable) \<noteq> None"
proof -
  let ?s = "pieceInfoTable\<lparr>XRefTable.ValidationMode := ValidationStrict\<rparr>"
  let ?d = "[(''Title'', StringLiteral ''t'')]"
  have i: "Info pieceInfoTable = Some (IndirectRef 2 0)" "Info ?s = Some (IndirectRef 2 0)"
    by (simp_all add: pieceInfoTable_def)
  have d: "DereferenceDict pieceInfoTable (IndirectRef 2 0) = (Some ?d, None)"
    "DereferenceDict ?s (IndirectRef 2 0) = (Some ?d, None)"
    by (simp_all add: pieceInfoTable_def DereferenceDict_def Dereference_def)
  have k: "''ModDate'' \<notin> fst ` set ?d" by simp
  have c: "CatalogHasPieceInfo pieceInfoTable = (True, None)" "CatalogHasPieceInfo ?s = (True, None)"
    by (simp_all add: pieceInfoTable_def CatalogHasPieceInfo_def DereferenceDict_def Dereference_def)
  show ?thesis
    using i d c
      validateDocumentInfoObject_requires_ModDate [OF i(1) d(1) k c(1), of "\<lambda>s. True"]
      validateDocumentInfoObject_requires_ModDate [OF i(2) d(2) k c(2), of "\<lambda>s. True"]
    by simp
qed

text \<open>
  In relaxed mode, with \<open>PieceInfo\<close> in the catalog and a valid info dictionary without
  \<open>ModDate\<close>, validation of the info object fails.
\<close>

theorem validateDocumentInfoObject_counterexample:
  "XRefTable.ValidationMode pieceInfoTable = ValidationRelaxed
   \<and> CatalogHasPieceInfo pieceInfoTable = (True, None)
   \<and> DereferenceDict pieceInfoTable (IndirectRef 2 0) = (Some [(''Title'', StringLiteral ''t'')], None)
   \<and> validateDocumentInfoObject (\<lambda>s. True) pieceInfoTable
       = (pieceInfoTable\<lparr>Title := ''t''\<rparr>,
          Some (Err ''validateDocumentInfoObject: missing required entry \"ModDate\"''))"
  by (simp add: pieceInfoTable_def sampleTable_def validateDocumentInfoObject_def
      validateDocumentInfoDict_def validateDocumentInfoDict_entry_def CatalogHasPieceInfo_def
      DereferenceDict_def DereferenceStringOrHexLiteral_def Dereference_def ValidateVersion_def
      Version_def Version_defs)

subsection \<open>The info dictionary: Trapped\<close>

lemma validateInfoDictTrapped_Name:
  assumes "Dereference x ob = (Name n, None)" and "V13 \<le> Version x"
  shows "(validateInfoDictTrapped ob x = None) =
           (if XRefTable.ValidationMode x = ValidationRelaxed
            then n \<in> {''True'', ''False'', ''Unknown'', ''true'', ''false'', ''unknown''}
            else n \<in> {''True'', ''False'', ''Unknown''})"
  using assms
  by (auto simp: validateInfoDictTrapped_def DereferenceName_def DereferenceBoolean_def
      ValidateVersion_def MemberOf_def Let_def)

lemma validateInfoDictTrapped_Boolean:
  assumes "Dereference x ob = (Boolean b, None)" and "V13 \<le> Version x"
  shows "(validateInfoDictTrapped ob x = None) = (XRefTable.ValidationMode x = ValidationRelaxed)"
  using assms
  by (auto simp: validateInfoDictTrapped_def DereferenceName_def DereferenceBoolean_def
      ValidateVersion_def Let_def)

lemma validateInfoDictTrapped_other:
  assumes "Dereference x ob = (v, None)" and "v \<noteq> Null"
    and "\<forall>n. v \<noteq> Name n" and "\<forall>b. v \<noteq> Boolean b"
  shows "validateInfoDictTrapped ob x \<noteq> None"
  using assms
  by (cases v) (auto simp: validateInfoDictTrapped_def DereferenceName_def DereferenceBoolean_def Let_def)

text \<open>
  C2, as the code has it. Let the \<open>Trapped\<close> value resolve to an object \<open>v\<close> other than null, in
  a document of version 1.3 or later (the version since which the entry exists). In strict
  mode the value validates if and only if \<open>v\<close> is one of the names \<open>True\<close>, \<open>False\<close>, \<open>Unknown\<close>.
  In relaxed mode it validates if and only if \<open>v\<close> is one of these names, or one of the
  lower case names \<open>true\<close>, \<open>false\<close>, \<open>unknown\<close>, or a boolean. No other spelling is accepted.
\<close>

theorem validateInfoDictTrapped_modes:
  assumes "Dereference x ob = (v, None)" and "v \<noteq> Null" and "V13 \<le> Version x"
  shows "(XRefTable.ValidationMode x = ValidationStrict \<longrightarrow>
            (validateInfoDictTrapped ob x = None) =
              (\<exists>n. v = Name n \<and> n \<in> {''True'', ''False'', ''Unknown''}))
       \<and> (XRefTable.ValidationMode x = ValidationRelaxed \<longrightarrow>
            (validateInfoDictTrapped ob x = None) =
              ((\<exists>n. v = Name n \<and> n \<in> {''True'', ''False'', ''Unknown'', ''true'', ''false'', ''unknown''})
               \<or> (\<exists>b. v = Boolean b)))"
proof (cases "(\<exists>n. v = Name n) \<or> (\<exists>b. v = Boolean b)")
  case True
  then show ?thesis
    using assms validateInfoDictTrapped_Name [of x ob _] validateInfoDictTrapped_Boolean [of x ob _]
    by auto
next
  case False
  then show ?thesis
    using assms validateInfoDictTrapped_other [of x ob v] by auto
qed

text \<open>The theorem on names and booleans, in strict and in relaxed mode.\<close>

theorem validateInfoDictTrapped_modes_witness:
  "(validateInfoDictTrapped (Name ''Unknown'') (sampleTable\<lparr>XRefTable.ValidationMode := ValidationStrict\<rparr>) = None)
   \<and> (validateInfoDictTrapped (Name ''unknown'') (sampleTable\<lparr>XRefTable.ValidationMode := ValidationStrict\<rparr>) \<noteq> None)
   \<and> (validateInfoDictTrapped (Boolean True) (sampleTable\<lparr>XRefTable.ValidationMode := ValidationStrict\<rparr>) \<noteq> None)
   \<and> (validateInfoDictTrapped (Name ''unknown'') sampleTable = None)
   \<and> (validateInfoDictTrapped (Boolean True) sampleTable = None)"
proof -
  let ?s = "sampleTable\<lparr>XRefTable.ValidationMode := ValidationStrict\<rparr>"
  have v: "V13 \<le> Version ?s" "V13 \<le> Version sampleTable"
    by (simp_all add: Version_def sampleTable_def Version_defs)
  have d: "\<And>x v. (\<forall>n g. v \<noteq> IndirectRef n g) \<Longrightarrow> Dereference x v = (v, None)"
    by (simp add: Dereference_def split: object.splits)
  have m: "XRefTable.ValidationMode ?s = ValidationStrict"
    "XRefTable.ValidationMode sampleTable = ValidationRelaxed"
    by (simp_all add: sampleTable_def)
  show ?thesis
    using validateInfoDictTrapped_modes [of ?s "Name ''Unknown''" "Name ''Unknown''"]
      validateInfoDictTrapped_modes [of ?s "Name ''unknown''" "Name ''unknown''"]
      validateInfoDictTrapped_modes [of ?s "Boolean True" "Boolean True"]
      validateInfoDictTrapped_modes [of sampleTable "Name ''unknown''" "Name ''unknown''"]
      validateInfoDictTrapped_modes [of sampleTable "Boolean True" "Boolean True"]
      v m d
    by auto
qed

text \<open>
  \<open>TRUE\<close> is a spelling of \<open>True\<close> up to case, and relaxed mode rejects it.
\<close>

theorem validateInfoDictTrapped_counterexample:
  "ToLower ''TRUE'' = ToLower ''True''
   \<and> XRefTable.ValidationMode sampleTable = ValidationRelaxed
   \<and> validateInfoDictTrapped (Name ''TRUE'') sampleTable \<noteq> None"
  by (simp add: ToLower_def sampleTable_def validateInfoDictTrapped_def DereferenceName_def
      DereferenceBoolean_def Dereference_def ValidateVersion_def Version_def Version_defs
      MemberOf_def)

subsection \<open>Validation without a mode\<close>

text \<open>
  C9. With the validation mode \<open>ValidationNone\<close> the two entry points disagree: \<open>Validate\<close>
  returns the error \<open>validate: mode == ValidationNone\<close> and \<open>ValidateFile\<close> returns no error.
  Neither does any work: the world is the same afterwards, so nothing was opened or read.
\<close>

theorem Validate_ValidateFile_mode_None:
  assumes "Configuration.ValidationMode conf = ValidationNone"
  shows "Validate E rs (Some conf) w = (w, Some (Err ''validate: mode == ValidationNone''))
         \<and> ValidateFile E inFile (Some conf) w = (w, None)"
  using assms by (simp add: Validate_def ValidateFile_def orDefault_def)

text \<open>
  The theorem on the sample input; in relaxed mode the same call opens, reads, validates and
  closes.
\<close>

theorem Validate_ValidateFile_mode_None_witness:
  "Configuration.ValidationMode (sampleConf\<lparr>ValidationMode := ValidationNone\<rparr>) = ValidationNone
   \<and> Validate sampleEnv ''abc'' (Some (sampleConf\<lparr>ValidationMode := ValidationNone\<rparr>)) sampleWorld
       = (sampleWorld, Some (Err ''validate: mode == ValidationNone''))
   \<and> ValidateFile sampleEnv ''in.pdf'' (Some (sampleConf\<lparr>ValidationMode := ValidationNone\<rparr>)) sampleWorld
       = (sampleWorld, None)
   \<and> trace (fst (ValidateFile sampleEnv ''in.pdf'' (Some sampleConf) sampleWorld))
       = [EvOpen ''in.pdf'', EvRead ''abc'', EvValidate, EvClose ''in.pdf'']"
proof -
  have h: "Configuration.ValidationMode (sampleConf\<lparr>ValidationMode := ValidationNone\<rparr>) = ValidationNone"
    by simp
  have t: "trace (fst (ValidateFile sampleEnv ''in.pdf'' (Some sampleConf) sampleWorld))
       = [EvOpen ''in.pdf'', EvRead ''abc'', EvValidate, EvClose ''in.pdf'']"
    by (simp add: ValidateFile_def Validate_def orDefault_def sampleConf_def sampleEnv_def
        sampleWorld_def os_Open_def os_Close_def emit_def contents_def ReadContext_def
        ValidateContext_def)
  show ?thesis
    using h t Validate_ValidateFile_mode_None [OF h, of sampleEnv "''abc''" sampleWorld "''in.pdf''"]
    by simp
qed

subsection \<open>Process recovers panics\<close>

text \<open>
  C8. \<open>Process\<close> never panics. When its body panics, in particular when the function of the
  command panics, \<open>Process\<close> returns the error \<open>unexpected panic attack\<close> with the printed
  value of the panic, and no output.
\<close>

theorem Process_recovers_panic:
  "(\<forall>p. snd (Process cmdMap cmd w) \<noteq> Panics p)
   \<and> (\<forall>w1 r. Process_body cmdMap cmd w = (w1, Panics r) \<longrightarrow>
        Process cmdMap cmd w = (w1, Returns ([], Some (Err (''unexpected panic attack: '' @ r @ nl)))))
   \<and> (\<forall>c f w1 r. Conf cmd = Some c \<and> cmdMap (Mode cmd) = Some f
         \<and> f (cmd\<lparr>Conf := Some (c\<lparr>Cmd := Mode cmd\<rparr>)\<rparr>) w = (w1, Panics r) \<longrightarrow>
        Process cmdMap cmd w = (w1, Returns ([], Some (Err (''unexpected panic attack: '' @ r @ nl)))))"
  by (auto simp: Process_def Process_body_def split: prod.splits outcome.splits option.splits)

text \<open>A split command with span 0 divides by zero; \<open>Process\<close> returns the error.\<close>

lemma sample_split_zero_panics:
  "Process_body (\<lambda>m. if m = SPLIT then Some (cli_Split sampleEnv) else None)
     (SplitCommand sampleEnv ''in.pdf'' ''out'' 0 None) sampleWorld
   = (sampleWorld\<lparr>trace := [EvOpen ''in.pdf'', EvRead ''abc'', EvValidate, EvOptimize, EvClose ''in.pdf'']\<rparr>,
      Panics ''integer divide by zero'')"
  by (simp add: Process_body_def SplitCommand_def cli_Split_def SplitFile_def Split_def
      readValidateAndOptimize_def readAndValidate_def ReadContext_def ValidateContext_def
      OptimizeContext_def writePDFSequence_def orDefault_def sampleEnv_def sampleConf_def
      sampleWorld_def os_Open_def os_Close_def emit_def contents_def
      writePDFSequence_loop.simps)

theorem Process_recovers_panic_witness:
  "Process_body (\<lambda>m. if m = SPLIT then Some (cli_Split sampleEnv) else None)
     (SplitCommand sampleEnv ''in.pdf'' ''out'' 0 None) sampleWorld
   = (sampleWorld\<lparr>trace := [EvOpen ''in.pdf'', EvRead ''abc'', EvValidate, EvOptimize, EvClose ''in.pdf'']\<rparr>,
      Panics ''integer divide by zero'')
   \<and> Process (\<lambda>m. if m = SPLIT then Some (cli_Split sampleEnv) else None)
     (SplitCommand sampleEnv ''in.pdf'' ''out'' 0 None) sampleWorld
   = (sampleWorld\<lparr>trace := [EvOpen ''in.pdf'', EvRead ''abc'', EvValidate, EvOptimize, EvClose ''in.pdf'']\<rparr>,
      Returns ([], Some (Err (''unexpected panic attack: integer divide by zero'' @ nl))))"
  using sample_split_zero_panics
    Process_recovers_panic [of "\<lambda>m. if m = SPLIT then Some (cli_Split sampleEnv) else None"
      "SplitCommand sampleEnv ''in.pdf'' ''out'' 0 None" sampleWorld]
  by simp

subsection \<open>Files and traces\<close>

lemma emit_files [simp]: "files (emit e w) = files w"
  by (simp add: emit_def)

lemma emit_trace [simp]: "trace (emit e w) = trace w @ [e]"
  by (simp add: emit_def)


lemma os_Close_files [simp]: "files (fst (os_Close E n w)) = files w"
  by (simp add: os_Close_def)










lemma new_events_append [simp]: "trace w' = trace w @ evs \<Longrightarrow> new_events w w' = evs"
  by (simp add: new_events_def)



subsection \<open>Setting permissions in place\<close>






text \<open>
  What does not hold. When the pipeline has returned without an error and closing the
  temporary file fails, the deferred function returns the error of \<open>Close\<close> at once: nothing
  is removed. When \<open>SetPermissions\<close> panics, the deferred function takes the path of a run
  without error: unless the operating system refuses, the temporary file is renamed over the
  input, which then holds the output up to the panic.
\<close>

lemma SetPermissionsFile_close_error:
  assumes inplace: "outFile = [] \<or> outFile = inFile"
    and conf: "conf \<noteq> None"
    and o: "os_Open E inFile w = (w1, None)"
    and cr: "os_Create E (inFile @ ''.tmp'') w1 = (w2, None)"
    and sp: "SetPermissions E (contents w2 inFile) (inFile @ ''.tmp'') conf w2 = (w3, Returns None)"
    and cl: "os_error E (EvClose (inFile @ ''.tmp'')) w3 = Some e"
  shows "SetPermissionsFile E inFile outFile conf w
           = (emit (EvClose (inFile @ ''.tmp'')) w3, Returns (Some e))"
proof -
  have tmp: "(if outFile \<noteq> [] \<and> inFile \<noteq> outFile then outFile else inFile @ ''.tmp'')
               = inFile @ ''.tmp''"
    using inplace by auto
  show ?thesis
    using conf o cr sp cl
    by (auto simp: SetPermissionsFile_def tmp SetPermissionsFile_deferred_def os_Close_def)
qed

lemma SetPermissionsFile_panic:
  assumes inplace: "outFile = [] \<or> outFile = inFile"
    and conf: "conf \<noteq> None"
    and o: "os_Open E inFile w = (w1, None)"
    and cr: "os_Create E (inFile @ ''.tmp'') w1 = (w2, None)"
    and sp: "SetPermissions E (contents w2 inFile) (inFile @ ''.tmp'') conf w2 = (w3, Panics p)"
    and os: "\<forall>ev u. os_error E ev u = None"
    and res: "SetPermissionsFile E inFile outFile conf w = (w', r)"
  shows "r = Panics p \<and> files w' inFile = files w3 (inFile @ ''.tmp'')
         \<and> files w' (inFile @ ''.tmp'') = None
         \<and> (\<exists>evs. trace w' = trace w3 @ evs @ [EvRename (inFile @ ''.tmp'') inFile])"
proof -
  let ?tmp = "inFile @ ''.tmp''"
  have tmp: "(if outFile \<noteq> [] \<and> inFile \<noteq> outFile then outFile else ?tmp) = ?tmp"
    using inplace by auto
  have ip: "outFile = [] \<or> inFile = outFile" using inplace by auto
  have ex: "files w3 ?tmp \<noteq> None"
  proof -
    have "files w2 ?tmp \<noteq> None" using cr by (auto simp: os_Create_def split: option.splits)
    moreover have "files w2 ?tmp \<noteq> None \<Longrightarrow> files w3 ?tmp \<noteq> None"
      using sp
      by (auto simp: SetPermissions_def WriteContext_def Let_def
          split: option.splits prod.splits sum.splits)
    ultimately show ?thesis by simp
  qed
  then obtain bs where bs: "files w3 ?tmp = Some bs" by auto
  have d: "SetPermissionsFile_deferred E inFile outFile ?tmp None w3
           = (emit (EvRename ?tmp inFile)
               ((emit (EvClose inFile) (emit (EvClose ?tmp) w3))
                  \<lparr>files := ((files w3)(?tmp := None))(inFile \<mapsto> bs)\<rparr>), None)"
    using ip os bs
    by (auto simp: SetPermissionsFile_deferred_def os_Close_def os_Rename_def emit_def)
  have "SetPermissionsFile E inFile outFile conf w
        = (fst (SetPermissionsFile_deferred E inFile outFile ?tmp None w3), Panics p)"
    using conf o cr sp by (simp add: SetPermissionsFile_def tmp)
  with res d have r: "r = Panics p"
    "w' = emit (EvRename ?tmp inFile)
            ((emit (EvClose inFile) (emit (EvClose ?tmp) w3))
               \<lparr>files := ((files w3)(?tmp := None))(inFile \<mapsto> bs)\<rparr>)"
    by simp_all
  show ?thesis using r bs by (simp add: emit_def)
qed


subsection \<open>Page ranges\<close>

lemma selectedPageRange_loop_lookup:
  "fmlookup (selectedPageRange_loop i thru s) k =
     (if i \<le> k \<and> k \<le> thru then Some True else fmlookup s k)"
proof (induction i thru s rule: selectedPageRange_loop.induct)
  case (1 i thru s)
  show ?case
  proof (cases "i \<le> thru")
    case True
    have "fmlookup (selectedPageRange_loop i thru s) k
            = fmlookup (selectedPageRange_loop (i + 1) thru (fmupd i True s)) k"
      using True by (subst selectedPageRange_loop.simps) simp
    also have "\<dots> = (if i + 1 \<le> k \<and> k \<le> thru then Some True else fmlookup (fmupd i True s) k)"
      using "1.IH" [OF True] by simp
    also have "\<dots> = (if i \<le> k \<and> k \<le> thru then Some True else fmlookup s k)"
      using True by auto
    finally show ?thesis .
  next
    case False
    then show ?thesis by (subst selectedPageRange_loop.simps) auto
  qed
qed

lemma selectedPageRange_lookup:
  "fmlookup (selectedPageRange from thru) k = (if from \<le> k \<and> k \<le> thru then Some True else None)"
  by (simp add: selectedPageRange_def selectedPageRange_loop_lookup)



subsection \<open>Removing pages\<close>












subsection \<open>Merge and version 1.5\<close>

lemma Merge_ensureV15_version: "V15 \<le> Version (XRefTable (Merge_ensureV15 c))"
  by (simp add: Merge_ensureV15_def Version_def PDFVersion_def)

lemma Merge_ensureV15_root:
  "Version (XRefTable c) < V15 \<Longrightarrow> RootVersion (XRefTable (Merge_ensureV15 c)) = Some V15"
  by (simp add: Merge_ensureV15_def PDFVersion_def)

lemma readAndValidate_V15:
  "readAndValidate E rs c w = (w', r) \<Longrightarrow> list_all at_least_V15 (trace w) \<Longrightarrow>
   list_all at_least_V15 (trace w')"
  by (auto simp: readAndValidate_def ReadContext_def ValidateContext_def at_least_V15_def
      split: sum.splits if_splits prod.splits option.splits)

lemma appendTo_V15:
  assumes "\<And>s d. V15 \<le> Version (XRefTable d) \<Longrightarrow> V15 \<le> Version (XRefTable (fst (MergeXRefTables E s d)))"
    and "appendTo E f d w = (w', d', err)"
    and "V15 \<le> Version (XRefTable d)"
    and "list_all at_least_V15 (trace w)"
  shows "V15 \<le> Version (XRefTable d') \<and> list_all at_least_V15 (trace w')"
proof -
  obtain w1 r where a: "readAndValidate E f (Configuration d) w = (w1, r)"
    by (cases "readAndValidate E f (Configuration d) w")
  have t: "list_all at_least_V15 (trace w1)" using a assms(4) by (rule readAndValidate_V15)
  show ?thesis
  proof (cases r)
    case (Inl e)
    with assms(2) a t assms(3) show ?thesis by (auto simp: appendTo_def)
  next
    case (Inr src)
    with assms(2) a have "d' = fst (MergeXRefTables E src d)" "w' = emit (EvMerge src d) w1"
      by (auto simp: appendTo_def split: prod.splits)
    with t assms(1) [OF assms(3)] assms(3) show ?thesis by (simp add: at_least_V15_def)
  qed
qed

lemma Merge_loop_V15:
  assumes "\<And>s d. V15 \<le> Version (XRefTable d) \<Longrightarrow> V15 \<le> Version (XRefTable (fst (MergeXRefTables E s d)))"
  shows "Merge_loop E fs d w = (w', d', err) \<Longrightarrow> V15 \<le> Version (XRefTable d) \<Longrightarrow>
         list_all at_least_V15 (trace w) \<Longrightarrow>
         V15 \<le> Version (XRefTable d') \<and> list_all at_least_V15 (trace w')"
proof (induction fs arbitrary: d w)
  case Nil
  then show ?case by simp
next
  case (Cons f fs)
  obtain w1 d1 e1 where a: "appendTo E f d w = (w1, d1, e1)"
    by (cases "appendTo E f d w") auto
  from appendTo_V15 [OF assms a Cons.prems(2) Cons.prems(3)]
  have i: "V15 \<le> Version (XRefTable d1)" "list_all at_least_V15 (trace w1)" by simp_all
  show ?case
  proof (cases e1)
    case None
    with Cons.prems(1) a have "Merge_loop E fs d1 w1 = (w', d', err)" by simp
    from Cons.IH [OF this i] show ?thesis .
  next
    case (Some e)
    with Cons.prems(1) a i show ?thesis by simp
  qed
qed

lemma OptimizeContext_V15:
  assumes "\<And>c. V15 \<le> Version (XRefTable c) \<Longrightarrow> V15 \<le> Version (XRefTable (fst (OptimizeXRefTable E c)))"
    and "OptimizeContext E c w = (w', c', err)"
    and "V15 \<le> Version (XRefTable c)" and "list_all at_least_V15 (trace w)"
  shows "V15 \<le> Version (XRefTable c') \<and> list_all at_least_V15 (trace w')"
  using assms(2-4) assms(1) [OF assms(3)]
  by (auto simp: OptimizeContext_def at_least_V15_def split: prod.splits)

lemma ValidateContext_V15:
  assumes "\<And>x. V15 \<le> Version x \<Longrightarrow> V15 \<le> Version (fst (validate_XRefTable E x))"
    and "ValidateContext E c w = (w', c', err)"
    and "V15 \<le> Version (XRefTable c)" and "list_all at_least_V15 (trace w)"
  shows "V15 \<le> Version (XRefTable c') \<and> list_all at_least_V15 (trace w')"
  using assms(2-4) assms(1) [OF assms(3)]
  by (auto simp: ValidateContext_def at_least_V15_def split: prod.splits)

lemma WriteContext_V15:
  assumes "WriteContext E c wr w = (w', err)"
    and "V15 \<le> Version (XRefTable c)" and "list_all at_least_V15 (trace w)"
  shows "list_all at_least_V15 (trace w')
       \<and> (\<exists>ctx. trace w' \<noteq> [] \<and> last (trace w') = EvWrite ctx \<and> V15 \<le> Version (XRefTable ctx))"
  using assms
  by (auto simp: WriteContext_def Let_def at_least_V15_def split: prod.splits)

text \<open>
  C10. The first statement of \<open>Merge\<close> after reading the first source leaves a destination
  whose effective version is at least 1.5, whatever the version of the input; the root version
  is set to 1.5 when the input version is lower. This happens before the loop that merges the
  other sources. As long as merging, optimizing and validating (code that is not at hand) do
  not lower a version that is at least 1.5, every destination of a merge and every context
  written has a version of at least 1.5, and a successful \<open>Merge\<close> ends with such a write.
\<close>

theorem Merge_version_at_least_V15:
  assumes mrg: "\<And>s d. V15 \<le> Version (XRefTable d) \<Longrightarrow>
                  V15 \<le> Version (XRefTable (fst (MergeXRefTables E s d)))"
    and opt: "\<And>c. V15 \<le> Version (XRefTable c) \<Longrightarrow>
                  V15 \<le> Version (XRefTable (fst (OptimizeXRefTable E c)))"
    and val: "\<And>x. V15 \<le> Version x \<Longrightarrow> V15 \<le> Version (fst (validate_XRefTable E x))"
    and tr: "list_all at_least_V15 (trace w)"
  shows "V15 \<le> Version (XRefTable (Merge_ensureV15 ctxDest))
       \<and> (Version (XRefTable ctxDest) < V15 \<longrightarrow>
            RootVersion (XRefTable (Merge_ensureV15 ctxDest)) = Some V15)
       \<and> list_all at_least_V15 (trace (fst (Merge E rsc wr conf w)))
       \<and> (snd (Merge E rsc wr conf w) = Returns None \<longrightarrow>
            (\<exists>ctx. last (trace (fst (Merge E rsc wr conf w))) = EvWrite ctx
                   \<and> V15 \<le> Version (XRefTable ctx)))"
proof -
  let ?conf = "(orDefault E conf)\<lparr>Cmd := MERGE\<rparr>"
  let ?P = "\<lambda>res. list_all at_least_V15 (trace (fst res))
       \<and> (snd res = Returns None \<longrightarrow>
            (\<exists>ctx. last (trace (fst res)) = EvWrite ctx \<and> V15 \<le> Version (XRefTable ctx)))"
  have "?P (Merge E rsc wr conf w)"
  proof (cases rsc)
    case Nil
    then show ?thesis using tr by (simp add: Merge_def)
  next
    case (Cons r rest)
    obtain w1 r1 where a: "readAndValidate E r ?conf w = (w1, r1)"
      by (cases "readAndValidate E r ?conf w")
    have t1: "list_all at_least_V15 (trace w1)" using a tr by (rule readAndValidate_V15)
    show ?thesis
    proof (cases r1)
      case (Inl e)
      with Cons a t1 show ?thesis by (simp add: Merge_def)
    next
      case (Inr c0)
      let ?d = "Merge_ensureV15 c0"
      obtain w2 d2 e2 where l: "Merge_loop E rest ?d w1 = (w2, d2, e2)"
        by (cases "Merge_loop E rest ?d w1") auto
      from Merge_loop_V15 [OF mrg l Merge_ensureV15_version t1]
      have i2: "V15 \<le> Version (XRefTable d2)" "list_all at_least_V15 (trace w2)" by simp_all
      show ?thesis
      proof (cases e2)
        case (Some e)
        with Cons a Inr l i2 show ?thesis by (simp add: Merge_def)
      next
        case None
        obtain w3 d3 e3 where o: "OptimizeContext E d2 w2 = (w3, d3, e3)"
          by (cases "OptimizeContext E d2 w2") auto
        from OptimizeContext_V15 [OF opt o i2]
        have i3: "V15 \<le> Version (XRefTable d3)" "list_all at_least_V15 (trace w3)" by simp_all
        show ?thesis
        proof (cases e3)
          case (Some e)
          with Cons a Inr l None o i3 show ?thesis by (simp add: Merge_def)
        next
          case None
          note e3 = None
          show ?thesis
          proof (cases "Configuration.ValidationMode ?conf \<noteq> ValidationNone")
            case True
            obtain w4 d4 e4 where v: "ValidateContext E d3 w3 = (w4, d4, e4)"
              by (cases "ValidateContext E d3 w3") auto
            from ValidateContext_V15 [OF val v i3]
            have i4: "V15 \<le> Version (XRefTable d4)" "list_all at_least_V15 (trace w4)" by simp_all
            show ?thesis
            proof (cases e4)
              case (Some e)
              with Cons a Inr l \<open>e2 = None\<close> o e3 True v i4 show ?thesis by (simp add: Merge_def)
            next
              case None
              obtain w5 e5 where wr: "WriteContext E d4 wr w4 = (w5, e5)"
                by (cases "WriteContext E d4 wr w4")
              from WriteContext_V15 [OF wr i4]
              have "?P (w5, Returns e5)" by auto
              moreover have "Merge E rsc wr conf w = (w5, Returns e5)"
                using Cons a Inr l \<open>e2 = None\<close> o e3 True v None wr by (simp add: Merge_def)
              ultimately show ?thesis by simp
            qed
          next
            case False
            obtain w5 e5 where wr: "WriteContext E d3 wr w3 = (w5, e5)"
              by (cases "WriteContext E d3 wr w3")
            from WriteContext_V15 [OF wr i3]
            have "?P (w5, Returns e5)" by auto
            moreover have "Merge E rsc wr conf w = (w5, Returns e5)"
              using Cons a Inr l \<open>e2 = None\<close> o e3 False wr by (simp add: Merge_def)
            ultimately show ?thesis by simp
          qed
        qed
      qed
    qed
  qed
  then show ?thesis
    using Merge_ensureV15_version [of ctxDest] Merge_ensureV15_root [of ctxDest] by simp
qed


text \<open>
  The theorem on two sample sources of version 1.4: the merge succeeds, its last event is the
  write, and all events respect version 1.5.
\<close>

theorem Merge_version_at_least_V15_witness:
  "Version (XRefTable (sampleContext ''ab'' sampleConf)) < V15
   \<and> V15 \<le> Version (XRefTable (Merge_ensureV15 (sampleContext ''ab'' sampleConf)))
   \<and> snd (Merge sampleEnv [''ab'', ''c''] ''out.pdf'' None sampleWorld) = Returns None
   \<and> list_all at_least_V15 (trace (fst (Merge sampleEnv [''ab'', ''c''] ''out.pdf'' None sampleWorld)))
   \<and> map is_write (trace (fst (Merge sampleEnv [''ab'', ''c''] ''out.pdf'' None sampleWorld)))
       = [False, False, False, False, False, False, False, True]"
proof -
  have m: "\<And>s d. V15 \<le> Version (XRefTable d) \<Longrightarrow>
             V15 \<le> Version (XRefTable (fst (MergeXRefTables sampleEnv s d)))"
    and ob: "\<And>c. V15 \<le> Version (XRefTable c) \<Longrightarrow>
             V15 \<le> Version (XRefTable (fst (OptimizeXRefTable sampleEnv c)))"
    and v: "\<And>x. V15 \<le> Version x \<Longrightarrow> V15 \<le> Version (fst (validate_XRefTable sampleEnv x))"
    by (simp_all add: sampleEnv_def)
  have t: "list_all at_least_V15 (trace sampleWorld)" by (simp add: sampleWorld_def)
  have lt: "Version (XRefTable (sampleContext ''ab'' sampleConf)) < V15"
    by (simp add: sampleContext_def sampleTable_def Version_def Version_defs)
  have r: "snd (Merge sampleEnv [''ab'', ''c''] ''out.pdf'' None sampleWorld) = Returns None"
    and i: "map is_write (trace (fst (Merge sampleEnv [''ab'', ''c''] ''out.pdf'' None sampleWorld)))
       = [False, False, False, False, False, False, False, True]"
    by (simp_all add: Merge_def appendTo_def readAndValidate_def ReadContext_def
        ValidateContext_def OptimizeContext_def WriteContext_def Merge_ensureV15_def
        orDefault_def sampleEnv_def sampleConf_def sampleContext_def sampleTable_def
        sampleWorld_def emit_def contents_def Let_def Version_def Version_defs PDFVersion_def
        is_write_def)
  show ?thesis
    using Merge_version_at_least_V15 [OF m ob v t, where ctxDest = "sampleContext ''ab'' sampleConf"
        and rsc = "[''ab'', ''c'']" and wr = "''out.pdf''" and conf = None] lt r i
    by simp
qed

subsection \<open>Split: the spans written\<close>

lemma sdiv_smod_nonneg:
  "0 \<le> (P::int) \<Longrightarrow> 1 \<le> s \<Longrightarrow> P sdiv s = P div s \<and> P smod s = P mod s"
  by (simp add: signed_divide_int_def signed_modulo_int_def sgn_if)

text \<open>
  For a span of at least 1 the numbers computed in the loop lie between 0 and the page
  count.
\<close>

lemma span_bounds:
  assumes "1 \<le> (s::int)" and "0 \<le> i" and "i < P sdiv s"
  shows "0 \<le> i * s \<and> 1 \<le> i * s + 1 \<and> i * s + s \<le> P"
proof -
  have p: "0 < P sdiv s" using assms by linarith
  have "0 \<le> P"
  proof (rule ccontr)
    assume "\<not> 0 \<le> P"
    then have "P sdiv s \<le> 0" using assms(1)
      by (simp add: signed_divide_int_def sgn_if mult_le_0_iff pos_imp_zdiv_nonneg_iff)
    with p show False by simp
  qed
  then have d: "P sdiv s = P div s" using assms(1) by (simp add: sdiv_smod_nonneg)
  have "(i + 1) * s \<le> (P div s) * s" using assms d by (intro mult_right_mono) auto
  also have "\<dots> \<le> P"
  proof -
    have "P div s * s + P mod s = P" by simp
    moreover have "0 \<le> P mod s" using assms(1) by simp
    ultimately show ?thesis by linarith
  qed
  finally have "i * s + s \<le> P" by (simp add: algebra_simps)
  moreover have "0 \<le> i * s" using assms by simp
  ultimately show ?thesis by simp
qed

lemma writeSpan_eq:
  "writeSpan E ctx from thru outDir fileName w =
     (emit (EvWrite (spanContext ctx from thru outDir fileName)) w,
      snd (pdf_Write E (spanContext ctx from thru outDir fileName)))"
  by (simp add: writeSpan_def spanContext_def ResetWriteContext_def Let_def)

lemma loop_trace:
  assumes s: "1 \<le> s" and P: "0 \<le> PageCount (XRefTable ctx)"
    and ok: "\<forall>c. snd (pdf_Write E c) = None"
  shows "0 \<le> i \<Longrightarrow> i \<le> PageCount (XRefTable ctx) div s \<Longrightarrow>
         writePDFSequence_loop E ctx s outDir fileName i w =
           (w\<lparr>trace := trace w @ map (spanEvent ctx s outDir fileName)
                                   [i .. PageCount (XRefTable ctx) div s - 1]\<rparr>, Returns None)"
proof (induction "nat (PageCount (XRefTable ctx) div s - i)" arbitrary: i w)
  case 0
  let ?P = "PageCount (XRefTable ctx)"
  have d: "?P sdiv s = ?P div s" using s P by (simp add: sdiv_smod_nonneg)
  from 0 have "i = ?P div s" by simp
  then show ?case using s d
    by (subst writePDFSequence_loop.simps) simp
next
  case (Suc n)
  let ?P = "PageCount (XRefTable ctx)"
  let ?g = "spanEvent ctx s outDir fileName"
  have d: "?P sdiv s = ?P div s" using s P by (simp add: sdiv_smod_nonneg)
  from Suc.hyps(2) have lt: "i < ?P div s" by linarith
  from span_bounds [OF s Suc.prems(1)] lt d have b: "i * s + s \<le> ?P" by simp
  have g: "?g i = EvWrite (spanContext ctx (i * s + 1) (i * s + s) outDir fileName)"
    using b by (simp add: spanEvent_def min_def)
  let ?w1 = "emit (?g i) w"
  have n: "n = nat (?P div s - (i + 1))" using Suc.hyps(2) by linarith
  have ih: "writePDFSequence_loop E ctx s outDir fileName (i + 1) ?w1 =
              (?w1\<lparr>trace := trace ?w1 @ map ?g [i + 1 .. ?P div s - 1]\<rparr>, Returns None)"
    using Suc.hyps(1) [OF n] Suc.prems(1) lt by simp
  have u: "[i .. ?P div s - 1] = i # [i + 1 .. ?P div s - 1]"
    using lt by (simp add: upto_rec1)
  have "writePDFSequence_loop E ctx s outDir fileName i w =
          writePDFSequence_loop E ctx s outDir fileName (i + 1) ?w1"
    using s lt d ok g
    by (subst writePDFSequence_loop.simps) (simp add: writeSpan_eq Let_def)
  also note ih
  finally show ?case by (simp add: u emit_def)
qed

lemma selectedPageRange_selected:
  "{p. fmlookup (selectedPageRange from thru) p = Some True} = {from .. thru}"
  by (auto simp: selectedPageRange_lookup split: if_splits)

lemma selected_pages_spanEvent:
  "selected_pages (spanEvent ctx s outDir fileName k)
     = {k * s + 1 .. min (k * s + s) (PageCount (XRefTable ctx))}"
  by (auto simp: selected_pages_def spanEvent_def spanContext_def selectedPageRange_lookup
      split: if_splits)

lemma ceiling_div:
  assumes "1 \<le> (s::int)"
  shows "\<lceil>real_of_int P / real_of_int s\<rceil> = P div s + (if P mod s = 0 then 0 else 1)"
proof -
  have "\<lceil>real_of_int P / real_of_int s\<rceil> = - (- P div s)" by (rule ceiling_divide_eq_div)
  also have "\<dots> = P div s + (if P mod s = 0 then 0 else 1)"
    using assms by (simp add: zdiv_zminus1_eq_if)
  finally show ?thesis .
qed

lemma concat_full_spans:
  assumes "0 \<le> (s::int)"
  shows "concat (map (\<lambda>k. [k * s + 1 .. k * s + s]) [0 .. int m - 1]) = [1 .. int m * s]"
proof (induction m)
  case 0
  then show ?case by simp
next
  case (Suc m)
  have u: "[0 .. int (Suc m) - 1] = [0 .. int m - 1] @ [int m]"
    by (simp add: upto_rec2)
  have "[1 .. int (Suc m) * s] = [1 .. int m * s] @ [int m * s + 1 .. int m * s + s]"
  proof (cases "1 \<le> int m * s")
    case True
    have "int m * s \<le> int (Suc m) * s" using assms by (simp add: algebra_simps)
    from upto_split2 [OF True this] show ?thesis by (simp add: algebra_simps)
  next
    case False
    then have z: "int m * s \<le> 0" by simp
    moreover have "0 \<le> int m * s" using assms by simp
    ultimately have z0: "int m * s = 0" by simp
    have e: "int (Suc m) * s = int m * s + s" by (simp add: algebra_simps)
    show ?thesis unfolding e z0 by simp
  qed
  then show ?case using Suc.IH u by simp
qed

lemma concat_spans:
  assumes s: "1 \<le> (s::int)" and P: "1 \<le> P"
  shows "concat (map (\<lambda>k. [k * s + 1 .. min (k * s + s) P])
                  [0 .. \<lceil>real_of_int P / real_of_int s\<rceil> - 1]) = [1 .. P]"
proof -
  let ?q = "P div s"
  let ?f = "\<lambda>k. [k * s + 1 .. min (k * s + s) P]"
  have q0: "0 \<le> ?q" using s P by (simp add: pos_imp_zdiv_nonneg_iff)
  have qs: "?q * s + P mod s = P" by simp
  have r: "0 \<le> P mod s" "P mod s < s" using s by simp_all
  have full: "concat (map ?f [0 .. ?q - 1]) = [1 .. ?q * s]"
  proof -
    have e1: "map ?f [0 .. ?q - 1] = map (\<lambda>k. [k * s + 1 .. k * s + s]) [0 .. ?q - 1]"
    proof (rule map_cong [OF refl])
      fix k assume "k \<in> set [0 .. ?q - 1]"
      then have "0 \<le> k" "k + 1 \<le> ?q" by simp_all
      then have "(k + 1) * s \<le> ?q * s" using s by (intro mult_right_mono) auto
      then have "k * s + s \<le> ?q * s" by (simp add: algebra_simps)
      moreover have "?q * s \<le> P" using qs r by linarith
      ultimately have "k * s + s \<le> P" by linarith
      then show "?f k = [k * s + 1 .. k * s + s]" by (simp add: min_def)
    qed
    have i: "int (nat ?q) = ?q" using q0 by simp
    have e2: "concat (map (\<lambda>k. [k * s + 1 .. k * s + s]) [0 .. ?q - 1]) = [1 .. ?q * s]"
      using concat_full_spans [of s "nat ?q"] s unfolding i by simp
    show ?thesis by (simp only: e1 e2)
  qed
  show ?thesis
  proof (cases "P mod s = 0")
    case True
    with qs have "?q * s = P" by simp
    with full True s show ?thesis by (simp add: ceiling_div)
  next
    case False
    have c: "\<lceil>real_of_int P / real_of_int s\<rceil> - 1 = ?q" using False s by (simp add: ceiling_div)
    have u: "[0 .. ?q] = [0 .. ?q - 1] @ [?q]" using q0 by (simp add: upto_rec2)
    have m: "min (?q * s + s) P = P" using qs r by linarith
    have "[1 .. P] = [1 .. ?q * s] @ [?q * s + 1 .. P]"
    proof (cases "1 \<le> ?q * s")
      case True
      have "?q * s \<le> P" using qs r by linarith
      from upto_split2 [OF True this] show ?thesis .
    next
      case False
      moreover have "0 \<le> ?q * s" using q0 s by simp
      ultimately have z: "?q * s = 0" by linarith
      show ?thesis unfolding z by simp
    qed
    then show ?thesis using full c u m by simp
  qed
qed

text \<open>
  C4. Let the context have \<open>P \<ge> 1\<close> pages, let the span be \<open>s \<ge> 1\<close>, and let no write fail.
  Then \<open>writePDFSequence\<close>, which \<open>Split\<close> runs on the context it has read, returns without
  error after exactly \<open>\<lceil>P / s\<rceil>\<close> selective writes, in this order: the \<open>k\<close>-th write, counting
  from 0, selects the pages \<open>k * s + 1 .. min (k * s + s) P\<close>. These ranges, one after the
  other, are the pages \<open>1 .. P\<close> in ascending order, each page once. The last range ends at
  \<open>P\<close> and has \<open>P mod s\<close> pages when \<open>s\<close> does not divide \<open>P\<close>.
\<close>

theorem writePDFSequence_spans:
  assumes P: "1 \<le> PageCount (XRefTable ctx)" and s: "1 \<le> s"
    and ok: "\<forall>c. snd (pdf_Write E c) = None"
  shows "writePDFSequence E ctx s outDir fileName w =
           (w\<lparr>trace := trace w @ map (spanEvent ctx s outDir fileName)
                [0 .. \<lceil>real_of_int (PageCount (XRefTable ctx)) / real_of_int s\<rceil> - 1]\<rparr>,
            Returns None)
       \<and> length [0 .. \<lceil>real_of_int (PageCount (XRefTable ctx)) / real_of_int s\<rceil> - 1]
           = nat \<lceil>real_of_int (PageCount (XRefTable ctx)) / real_of_int s\<rceil>
       \<and> map selected_pages (map (spanEvent ctx s outDir fileName)
            [0 .. \<lceil>real_of_int (PageCount (XRefTable ctx)) / real_of_int s\<rceil> - 1])
           = map (\<lambda>k. {k * s + 1 .. min (k * s + s) (PageCount (XRefTable ctx))})
               [0 .. \<lceil>real_of_int (PageCount (XRefTable ctx)) / real_of_int s\<rceil> - 1]
       \<and> concat (map (\<lambda>k. [k * s + 1 .. min (k * s + s) (PageCount (XRefTable ctx))])
            [0 .. \<lceil>real_of_int (PageCount (XRefTable ctx)) / real_of_int s\<rceil> - 1])
           = [1 .. PageCount (XRefTable ctx)]
       \<and> min ((\<lceil>real_of_int (PageCount (XRefTable ctx)) / real_of_int s\<rceil> - 1) * s + s)
               (PageCount (XRefTable ctx)) = PageCount (XRefTable ctx)
       \<and> (PageCount (XRefTable ctx) mod s \<noteq> 0 \<longrightarrow>
            PageCount (XRefTable ctx)
              - ((\<lceil>real_of_int (PageCount (XRefTable ctx)) / real_of_int s\<rceil> - 1) * s + 1) + 1
            = PageCount (XRefTable ctx) mod s)"
proof -
  let ?P = "PageCount (XRefTable ctx)"
  let ?q = "?P div s"
  let ?n = "\<lceil>real_of_int ?P / real_of_int s\<rceil>"
  let ?g = "spanEvent ctx s outDir fileName"
  have P0: "0 \<le> ?P" using P by simp
  have d: "?P sdiv s = ?q" "?P smod s = ?P mod s" using P0 s by (simp_all add: sdiv_smod_nonneg)
  have q0: "0 \<le> ?q" using s P0 by (simp add: pos_imp_zdiv_nonneg_iff)
  have qs: "?q * s + ?P mod s = ?P" by simp
  have r: "0 \<le> ?P mod s" "?P mod s < s" using s by simp_all
  have n: "?n = ?q + (if ?P mod s = 0 then 0 else 1)" using s by (rule ceiling_div)
  have l: "writePDFSequence_loop E ctx s outDir fileName 0 w =
             (w\<lparr>trace := trace w @ map ?g [0 .. ?q - 1]\<rparr>, Returns None)"
    using loop_trace [OF s P0 ok, of 0 outDir fileName w] q0 by simp
  have 1: "writePDFSequence E ctx s outDir fileName w =
             (w\<lparr>trace := trace w @ map ?g [0 .. ?n - 1]\<rparr>, Returns None)"
  proof (cases "?P mod s = 0")
    case True
    then show ?thesis using l d n by (simp add: writePDFSequence_def)
  next
    case False
    then have pos: "0 < ?P mod s" using r by simp
    have m: "min (?q * s + s) ?P = ?q * s + ?P mod s" using qs r by linarith
    have g: "?g ?q = EvWrite (spanContext ctx (?q * s + 1) (?q * s + ?P mod s) outDir fileName)"
      unfolding spanEvent_def m ..
    have u: "[0 .. ?q] = [0 .. ?q - 1] @ [?q]" using q0 by (simp add: upto_rec2)
    have c: "?n - 1 = ?q" using False n by simp
    show ?thesis
      unfolding c
      using l d pos ok g u by (simp add: writePDFSequence_def writeSpan_eq Let_def emit_def)
  qed
  have 2: "length [0 .. ?n - 1] = nat ?n" by simp
  have 3: "map selected_pages (map ?g [0 .. ?n - 1])
             = map (\<lambda>k. {k * s + 1 .. min (k * s + s) ?P}) [0 .. ?n - 1]"
    by (simp add: selected_pages_spanEvent)
  have 4: "concat (map (\<lambda>k. [k * s + 1 .. min (k * s + s) ?P]) [0 .. ?n - 1]) = [1 .. ?P]"
    using s P by (rule concat_spans)
  have ns: "(?n - 1) * s + s = ?n * s" by (simp add: algebra_simps)
  have 5: "min ((?n - 1) * s + s) ?P = ?P"
  proof (cases "?P mod s = 0")
    case True
    then have "?n = ?q" using n by simp
    moreover have "?q * s = ?P" using qs True by linarith
    ultimately show ?thesis unfolding ns by simp
  next
    case False
    then have "?n = ?q + 1" using n by simp
    then have "?n * s = ?q * s + s" by (simp add: algebra_simps)
    moreover have "?P < ?q * s + s" using qs r by linarith
    ultimately show ?thesis unfolding ns by simp
  qed
  have 6: "?P mod s \<noteq> 0 \<longrightarrow> ?P - ((?n - 1) * s + 1) + 1 = ?P mod s"
  proof
    assume "?P mod s \<noteq> 0"
    then have c: "?n - 1 = ?q" using n by simp
    show "?P - ((?n - 1) * s + 1) + 1 = ?P mod s" unfolding c using qs by linarith
  qed
  show ?thesis using 1 2 3 4 5 6 by blast
qed

text \<open>
  Seven pages with span 3: the files \<open>in_1-3.pdf\<close>, \<open>in_4-6.pdf\<close> and \<open>in_7.pdf\<close> with the pages
  1 to 3, 4 to 6 and 7.
\<close>

theorem writePDFSequence_spans_witness:
  "snd (writePDFSequence sampleEnv (sampleContext ''abcdefg'' sampleConf) 3 ''out'' ''in.pdf'' sampleWorld)
     = Returns None
   \<and> map selected_pages
        (trace (fst (writePDFSequence sampleEnv (sampleContext ''abcdefg'' sampleConf) 3 ''out''
                       ''in.pdf'' sampleWorld)))
     = [{1 .. 3}, {4 .. 6}, {7 .. 7}]
   \<and> map file_name
        (trace (fst (writePDFSequence sampleEnv (sampleContext ''abcdefg'' sampleConf) 3 ''out''
                       ''in.pdf'' sampleWorld)))
     = [''in_1-3.pdf'', ''in_4-6.pdf'', ''in_7.pdf'']"
proof -
  let ?ctx = "sampleContext ''abcdefg'' sampleConf"
  have p: "PageCount (XRefTable ?ctx) = 7" by (simp add: sampleContext_def)
  have P: "1 \<le> PageCount (XRefTable ?ctx)" unfolding p by simp
  have s: "1 \<le> (3::int)" by simp
  have ok: "\<forall>c. snd (pdf_Write sampleEnv c) = None" by (simp add: sampleEnv_def)
  have c: "\<lceil>real_of_int 7 / real_of_int 3\<rceil> = 3" by simp
  have u: "[0 .. 2::int] = [0, 1, 2]" by (simp add: upto.simps)
  have f: "map file_name (map (spanEvent ?ctx 3 ''out'' ''in.pdf'') [0, 1, 2])
             = [''in_1-3.pdf'', ''in_4-6.pdf'', ''in_7.pdf'']"
    by (simp add: file_name_def spanEvent_def spanContext_def p spanFileName_def Base_def
        TrimSuffix_def HasSuffix_def Itoa_def)
  show ?thesis
    using writePDFSequence_spans [OF P s ok, of "''out''" "''in.pdf''" sampleWorld] f
    by (simp add: p c u sampleWorld_def)
qed

subsection \<open>Split: a span below 1\<close>

text \<open>
  The command line handler rejects a span that does not parse or is below 1.
\<close>

lemma handleSplitCommand_rejects:
  assumes "length args = 3" and "selectedPages = []" and "hasPdfExtension (args ! 0)"
    and "Atoi (args ! 2) = (n, err)" and "err \<noteq> None \<or> n <s 1"
  shows "handleSplitCommand E usageSplit args selectedPages conf
           = Exit 1 (''split: span is a numeric value >= 1'' @ nl)"
  using assms by (simp add: handleSplitCommand_def Arg_def Let_def)

lemma sample_writeSpan_3:
  "writeSpan sampleEnv ctx 3 3 outDir fileName w
     = (emit (EvWrite (ctx\<lparr>Write := \<lparr>SelectedPages = selectedPageRange 3 3, DirName = outDir,
                   FileName = spanFileName fileName 3 3, Writer = None\<rparr>\<rparr>)) w, None)"
  by (simp add: writeSpan_def ResetWriteContext_def Let_def sampleEnv_def)

text \<open>
  C5 does not hold below the command line handler. \<open>writePDFSequence\<close> does not check the
  span: with span 0 it panics with a division by zero, and with span -2 on a document of
  three pages it returns no error and writes page 3. The same happens when the command is
  run by \<open>Process\<close>: the split with span -2 returns no error and has written a file.
\<close>

theorem writePDFSequence_span_below_1:
  "writePDFSequence sampleEnv (sampleContext ''abc'' sampleConf) 0 ''out'' ''in.pdf'' sampleWorld
     = (sampleWorld, Panics ''integer divide by zero'')
   \<and> snd (writePDFSequence sampleEnv (sampleContext ''abc'' sampleConf) (- 2) ''out'' ''in.pdf''
           sampleWorld) = Returns None
   \<and> map selected_pages
        (trace (fst (writePDFSequence sampleEnv (sampleContext ''abc'' sampleConf) (- 2) ''out''
                       ''in.pdf'' sampleWorld))) = [{3}]
   \<and> snd (Process splitMap (SplitCommand sampleEnv ''in.pdf'' ''out'' (- 2) None) sampleWorld)
       = Returns ([], None)
   \<and> map selected_pages
        (trace (fst (Process splitMap (SplitCommand sampleEnv ''in.pdf'' ''out'' (- 2) None)
                       sampleWorld))) = [{}, {}, {}, {}, {3}, {}]"
proof -
  let ?ctx = "sampleContext ''abc'' sampleConf"
  have p: "PageCount (XRefTable ?ctx) = 3" by (simp add: sampleContext_def)
  have sp: "\<And>c. selected_pages (EvWrite (c\<lparr>Write := \<lparr>SelectedPages = selectedPageRange 3 3,
                DirName = ''out'', FileName = spanFileName ''in.pdf'' 3 3, Writer = None\<rparr>\<rparr>)) = {3}"
    by (simp add: selected_pages_def selectedPageRange_selected)
  have a: "writePDFSequence sampleEnv ?ctx 0 ''out'' ''in.pdf'' sampleWorld
             = (sampleWorld, Panics ''integer divide by zero'')"
    by (simp add: writePDFSequence_def writePDFSequence_loop.simps)
  have b: "writePDFSequence sampleEnv ?ctx (- 2) ''out'' ''in.pdf'' sampleWorld
             = (emit (EvWrite (?ctx\<lparr>Write := \<lparr>SelectedPages = selectedPageRange 3 3,
                   DirName = ''out'', FileName = spanFileName ''in.pdf'' 3 3, Writer = None\<rparr>\<rparr>))
                  sampleWorld, Returns None)"
    by (simp add: writePDFSequence_def writePDFSequence_loop.simps p signed_divide_int_def
        signed_modulo_int_def sample_writeSpan_3 Let_def)
  have c: "Process splitMap (SplitCommand sampleEnv ''in.pdf'' ''out'' (- 2) None) sampleWorld
             = (sampleWorld\<lparr>trace := [EvOpen ''in.pdf'', EvRead ''abc'', EvValidate, EvOptimize,
                  EvWrite ((sampleContext ''abc'' (sampleConf\<lparr>Cmd := SPLIT\<rparr>))
                    \<lparr>Write := \<lparr>SelectedPages = selectedPageRange 3 3,
                       DirName = ''out'', FileName = spanFileName ''in.pdf'' 3 3, Writer = None\<rparr>\<rparr>),
                  EvClose ''in.pdf'']\<rparr>, Returns ([], None))"
    by (simp add: Process_def Process_body_def splitMap_def SplitCommand_def cli_Split_def
        SplitFile_def Split_def readValidateAndOptimize_def readAndValidate_def ReadContext_def
        ValidateContext_def OptimizeContext_def writePDFSequence_def writePDFSequence_loop.simps
        orDefault_def sampleEnv_def sampleConf_def sampleWorld_def os_Open_def os_Close_def
        emit_def contents_def signed_divide_int_def signed_modulo_int_def
        writeSpan_def ResetWriteContext_def Let_def sampleContext_def Base_def)
  show ?thesis
    unfolding a b c
    by (simp add: sp emit_def sampleWorld_def selected_pages_def selectedPageRange_selected)
qed

subsection \<open>Rotate: the check of the rotation\<close>

lemma sint_abs_int:
  assumes "r \<noteq> (- 9223372036854775808 :: go_int)"
  shows "sint (abs_int r) = \<bar>sint r\<bar>"
proof -
  have ne: "sint r \<noteq> - (2 ^ 63)"
  proof
    assume "sint r = - (2 ^ 63)"
    then have "word_of_int (sint r) = (word_of_int (- (2 ^ 63)) :: go_int)" by simp
    then have "r = - 9223372036854775808" by simp
    with assms show False by simp
  qed
  have lo: "- (2 ^ 63) \<le> sint r" using sint_ge [of r] by simp
  have hi: "sint r < 2 ^ 63" using sint_lt [of r] by simp
  show ?thesis
  proof (cases "r <s 0")
    case True
    then have n: "sint r < 0" by (simp add: word_sless_alt)
    have "sint (- r) = signed_take_bit 63 (- sint r)" by (simp add: sint_word_ariths)
    also have "\<dots> = - sint r"
      using lo ne hi by (intro signed_take_bit_int_eq_self) auto
    finally show ?thesis using True n by (simp add: abs_int_def)
  next
    case False
    then have "0 \<le> sint r" by (simp add: word_sless_alt)
    with False show ?thesis by (simp add: abs_int_def)
  qed
qed

text \<open>
  For every rotation but the least 64 bit integer the check of the handler is exact.
\<close>

lemma rotation_check:
  assumes "r \<noteq> (- 9223372036854775808 :: go_int)"
  shows "(0 <s rem_int (abs_int r) 90) = (\<not> 90 dvd sint r)"
proof -
  let ?k = "\<bar>sint r\<bar> mod 90"
  have k: "0 \<le> ?k" "?k < 90" by simp_all
  have "sint (abs_int r) smod sint (90 :: go_int) = ?k"
    by (simp add: sint_abs_int [OF assms] signed_modulo_int_def sgn_if)
  then have "sint (rem_int (abs_int r) 90) = signed_take_bit 63 ?k"
    by (simp add: rem_int_def sint_sbintrunc')
  also have "\<dots> = ?k" using k by (intro signed_take_bit_int_eq_self) auto
  finally have "(0 <s rem_int (abs_int r) 90) = (0 < ?k)" by (simp add: word_sless_alt)
  also have "\<dots> = (\<not> 90 dvd \<bar>sint r\<bar>)" using k by (auto simp: dvd_eq_mod_eq_0)
  finally show ?thesis by simp
qed

lemma handleRotateCommand_rejects:
  assumes "2 \<le> length args" and "hasPdfExtension (args ! 0)"
    and "Atoi (args ! 1) = (r, None)" and "r \<noteq> - 9223372036854775808"
  shows "(\<not> 90 dvd sint r \<longrightarrow>
            handleRotateCommand E usageRotate args selectedPages conf
              = Exit 1 (''rotation must be a multiple of 90: '' @ args ! 1 @ nl))
       \<and> (90 dvd sint r \<longrightarrow> snd (ParsePageSelection E selectedPages) = None \<longrightarrow>
            handleRotateCommand E usageRotate args selectedPages conf
              = Processes (RotateCommand E (args ! 0) [] r (fst (ParsePageSelection E selectedPages)) conf))"
  using assms rotation_check [OF assms(4)]
  by (auto simp: handleRotateCommand_def Arg_def Let_def split: prod.splits option.splits)

lemma Atoi_min_int: "Atoi ''-9223372036854775808'' = (- 9223372036854775808, None)"
  by (simp add: Atoi_def)

lemma min_int_passes: "\<not> 0 <s rem_int (abs_int (- 9223372036854775808)) 90"
  by (simp add: abs_int_def rem_int_def signed_modulo_int_def word_sless_alt)

text \<open>
  C7 fails at one rotation. For the least 64 bit integer, \<open>abs\<close> wraps around to the same
  negative number, whose remainder modulo 90 is -8 and so not greater than 0: the handler
  accepts the rotation -9223372036854775808, which is not a multiple of 90, and hands the
  command to \<open>process\<close>. A rotation of -91 is rejected.
\<close>

theorem handleRotateCommand_min_int:
  "handleRotateCommand sampleEnv ''usage'' [''in.pdf'', ''-9223372036854775808''] [] None
     = Processes (RotateCommand sampleEnv ''in.pdf'' [] (- 9223372036854775808) [] None)
   \<and> sint (- 9223372036854775808 :: go_int) = - 9223372036854775808
   \<and> \<not> 90 dvd (- 9223372036854775808 :: int)
   \<and> handleRotateCommand sampleEnv ''usage'' [''in.pdf'', ''-91''] [] None
     = Exit 1 (''rotation must be a multiple of 90: -91'' @ nl)"
proof -
  have a: "handleRotateCommand sampleEnv ''usage'' [''in.pdf'', ''-9223372036854775808''] [] None
     = Processes (RotateCommand sampleEnv ''in.pdf'' [] (- 9223372036854775808) [] None)"
    by (simp add: handleRotateCommand_def Arg_def hasPdfExtension_def ToLower_def HasSuffix_def
        Atoi_min_int min_int_passes sampleEnv_def)
  have b: "Atoi ''-91'' = (- 91, None)" by (simp add: Atoi_def)
  have c: "0 <s rem_int (abs_int (- 91)) 90"
    by (simp add: abs_int_def rem_int_def signed_modulo_int_def word_sless_alt)
  have d: "handleRotateCommand sampleEnv ''usage'' [''in.pdf'', ''-91''] [] None
     = Exit 1 (''rotation must be a multiple of 90: -91'' @ nl)"
    by (simp add: handleRotateCommand_def Arg_def hasPdfExtension_def ToLower_def HasSuffix_def
        b c)
  show ?thesis using a d by simp
qed


text \<open>So the rotation is not answered by the exit that the handler has for a bad rotation.\<close>

theorem handleRotateCommand_min_int_witness:
  "handleRotateCommand sampleEnv ''usage'' [''in.pdf'', ''-9223372036854775808''] [] None
     \<noteq> Exit 1 (''rotation must be a multiple of 90: -9223372036854775808'' @ nl)
   \<and> Rotation (RotateCommand sampleEnv ''in.pdf'' [] (- 9223372036854775808) [] None)
       = - 9223372036854775808"
  using handleRotateCommand_min_int by (simp add: RotateCommand_def)

end
